theory Spec2Isabelle
  imports Complex_Main "HOL-Library.AList"
begin

section \<open>Python strings\<close>

text \<open>
  Strings are byte lists. The case operations below are Python's \<^verbatim>\<open>str.lower\<close>,
  \<^verbatim>\<open>str.title\<close> and \<^verbatim>\<open>str.strip\<close> on ASCII text; a byte outside ASCII is
  neither cased nor white space here.
\<close>

definition ascii_lowercase :: string where
  "ascii_lowercase = ''abcdefghijklmnopqrstuvwxyz''"

definition ascii_uppercase :: string where
  "ascii_uppercase = ''ABCDEFGHIJKLMNOPQRSTUVWXYZ''"

definition islower :: "char \<Rightarrow> bool" where
  "islower c = (c \<in> set ascii_lowercase)"

definition isupper :: "char \<Rightarrow> bool" where
  "isupper c = (c \<in> set ascii_uppercase)"

definition to_upper :: "char \<Rightarrow> char" where
  "to_upper c = (case map_of (zip ascii_lowercase ascii_uppercase) c of Some u \<Rightarrow> u | None \<Rightarrow> c)"

definition to_lower :: "char \<Rightarrow> char" where
  "to_lower c = (case map_of (zip ascii_uppercase ascii_lowercase) c of Some l \<Rightarrow> l | None \<Rightarrow> c)"

definition lower :: "string \<Rightarrow> string" where
  "lower s = map to_lower s"

text \<open>
  \<^verbatim>\<open>str.title\<close>: a cased character that follows a cased character is lowered, any other
  character is raised.
\<close>

fun title_from :: "bool \<Rightarrow> string \<Rightarrow> string" where
  "title_from previous_is_cased [] = []"
| "title_from previous_is_cased (c # cs) =
     (if previous_is_cased then to_lower c else to_upper c)
       # title_from (islower c \<or> isupper c) cs"

definition title :: "string \<Rightarrow> string" where
  "title s = title_from False s"

text \<open>\<^verbatim>\<open>s.replace('_', ' ')\<close>\<close>

definition replace_underscore :: "string \<Rightarrow> string" where
  "replace_underscore s = map (\<lambda>c. if c = CHR ''_'' then CHR '' '' else c) s"

text \<open>The display form used throughout \<^verbatim>\<open>data_service.py\<close>: \<^verbatim>\<open>k.replace('_', ' ').title()\<close>\<close>

definition display_name :: "string \<Rightarrow> string" where
  "display_name k = title (replace_underscore k)"

text \<open>
  \<^verbatim>\<open>str.isspace\<close> on ASCII: tab, line feed, vertical tab, form feed, carriage return,
  the four separators 0x1C to 0x1F, and the space.
\<close>

definition isspace :: "char \<Rightarrow> bool" where
  "isspace c = (c \<in> set [CHR 0x09, CHR 0x0A, CHR 0x0B, CHR 0x0C, CHR 0x0D,
                          CHR 0x1C, CHR 0x1D, CHR 0x1E, CHR 0x1F, CHR '' ''])"

definition strip :: "string \<Rightarrow> string" where
  "strip s = rev (dropWhile isspace (rev (dropWhile isspace s)))"

section \<open>Python dictionaries and numbers\<close>

text \<open>
  A \<^verbatim>\<open>dict\<close> keeps its keys in insertion order and an assignment to a key that is
  present keeps the key's place: an association list under \<^const>\<open>AList.update\<close>.
\<close>

definition dict_get :: "('k \<times> 'v) list \<Rightarrow> 'k \<Rightarrow> 'v \<Rightarrow> 'v" where
  "dict_get d k dflt = (case map_of d k of Some v \<Rightarrow> v | None \<Rightarrow> dflt)"

text \<open>\<^verbatim>\<open>{f(k): v for k, v in d.items()}\<close>\<close>

definition dict_map_keys :: "('k \<Rightarrow> 'j) \<Rightarrow> ('k \<times> 'v) list \<Rightarrow> ('j \<times> 'v) list" where
  "dict_map_keys f d = foldl (\<lambda>acc (k, v). AList.update (f k) v acc) [] d"

text \<open>
  Amounts are the store's two-place decimals, read by the code through \<^verbatim>\<open>float(...)\<close>.
  They are rationals here and the arithmetic is exact: the rounding of binary floating
  point is not part of this model. \<^verbatim>\<open>round(x, 2)\<close> rounds to the nearest hundredth,
  a tie to the even one.
\<close>

definition round_half_even :: "rat \<Rightarrow> int" where
  "round_half_even x =
     (let n = \<lfloor>x\<rfloor>; r = x - of_int n
      in if r < 1 / 2 then n else if 1 / 2 < r then n + 1 else if even n then n else n + 1)"

definition round2 :: "rat \<Rightarrow> rat" where
  "round2 x = of_int (round_half_even (x * 100)) / 100"

section \<open>The record store (\<^verbatim>\<open>models.py\<close>)\<close>

text \<open>
  A date is its day number, so that the difference of two dates is \<^verbatim>\<open>timedelta.days\<close>.
  A foreign key holds the key of the record it points to. Each table is the list of its
  rows in insertion order.
\<close>

type_synonym date = int

record customer =
  c_customer_id :: string
  c_name :: string
  c_age :: int
  c_risk_level :: string
  c_annual_income :: rat
  c_financial_goals :: string
  c_account_opening_date :: date
  c_email :: string
  c_phone :: string

record transaction =
  t_transaction_id :: string
  t_customer :: string
  t_date :: date
  t_category :: string
  t_merchant :: string
  t_amount :: rat
  t_payment_method :: string
  t_description :: string

record investment =
  i_investment_id :: string
  i_customer :: string
  i_product_type :: string
  i_product_name :: string
  i_purchase_date :: date
  i_invested_amount :: rat
  i_current_value :: rat
  i_units :: rat
  i_purchase_nav :: rat
  i_current_nav :: rat
  i_returns_absolute :: rat
  i_returns_percentage :: rat
  i_risk_level :: string

record chat_conversation =
  cc_conversation_id :: string
  cc_customer :: string
  cc_is_active :: bool

record chat_message =
  m_conversation :: string
  m_role :: string
  m_content :: string
  m_intent :: "string option"
  m_data_sources :: "string list"
  m_thought_signature :: "string option"

section \<open>\<^verbatim>\<open>data_service.py\<close>\<close>

record transaction_summary =
  total_spent :: rat
  monthly_average :: rat
  top_categories :: "string list"
  category_breakdown :: "(string \<times> rat) list"
  transaction_count :: nat

text \<open>
  The loop \<^verbatim>\<open>category_spending[t.category] = category_spending.get(t.category, 0) + float(t.amount)\<close>
\<close>

definition category_spending_of :: "transaction list \<Rightarrow> (string \<times> rat) list" where
  "category_spending_of transactions =
     foldl (\<lambda>category_spending t.
              AList.update (t_category t)
                (dict_get category_spending (t_category t) 0 + t_amount t) category_spending)
       [] transactions"

text \<open>
  \<^verbatim>\<open>(max(dates) - min(dates)).days / 30 or 1\<close>: the quotient, and 1 in its place only
  when the quotient is 0.
\<close>

definition months_covered_of :: "date list \<Rightarrow> rat" where
  "months_covered_of dates =
     (let q = of_int (Max (set dates) - Min (set dates)) / 30 in if q = 0 then 1 else q)"

text \<open>
  \<^verbatim>\<open>_calculate_transaction_summary\<close>. The empty dictionary it returns for no
  transactions is \<^const>\<open>None\<close>. \<^verbatim>\<open>sorted(..., reverse=True)\<close> is stable, as
  \<^const>\<open>sort_key\<close> is.
\<close>

definition calculate_transaction_summary :: "transaction list \<Rightarrow> transaction_summary option" where
  "calculate_transaction_summary transactions =
     (if transactions = [] then None
      else
        let total = sum_list (map t_amount transactions);
            category_spending = category_spending_of transactions;
            top = take 5 (sort_key (\<lambda>x. - snd x) category_spending);
            dates = map t_date transactions;
            monthly = (if dates \<noteq> [] then total / months_covered_of dates else 0)
        in Some \<lparr>total_spent = total,
                 monthly_average = monthly,
                 top_categories = map (\<lambda>cat. display_name (fst cat)) (take 3 top),
                 category_breakdown = dict_map_keys display_name category_spending,
                 transaction_count = length transactions\<rparr>)"

record investment_summary =
  total_invested :: rat
  current_value :: rat
  total_returns :: rat
  return_percentage :: rat
  product_types :: "string list"
  investment_count :: nat
  best_performer :: "(string \<times> rat) option"

text \<open>\<^verbatim>\<open>product_types[ptype] = product_types.get(ptype, 0) + 1\<close> with the display name as key\<close>

definition product_type_counts :: "investment list \<Rightarrow> (string \<times> nat) list" where
  "product_type_counts investments =
     foldl (\<lambda>counts i.
              let ptype = display_name (i_product_type i)
              in AList.update ptype (dict_get counts ptype 0 + 1) counts)
       [] investments"

text \<open>\<^verbatim>\<open>max(investments, key=lambda x: x.returns_percentage)\<close>: the first of the maximal ones\<close>

definition best_investment_of :: "investment list \<Rightarrow> investment option" where
  "best_investment_of investments =
     (case investments of
        [] \<Rightarrow> None
      | i # rest \<Rightarrow>
          Some (foldl (\<lambda>best j. if i_returns_percentage best < i_returns_percentage j then j else best)
                  i rest))"

definition calculate_investment_summary :: "investment list \<Rightarrow> investment_summary option" where
  "calculate_investment_summary investments =
     (if investments = [] then None
      else
        let invested = sum_list (map i_invested_amount investments);
            cur = sum_list (map i_current_value investments);
            returns = cur - invested;
            pct = (if 0 < invested then returns / invested * 100 else 0)
        in Some \<lparr>total_invested = invested,
                 current_value = cur,
                 total_returns = returns,
                 return_percentage = pct,
                 product_types = map fst (product_type_counts investments),
                 investment_count = length investments,
                 best_performer =
                   map_option (\<lambda>b. (i_product_name b, i_returns_percentage b))
                     (best_investment_of investments)\<rparr>)"

text \<open>
  Exceptions are values. \<^verbatim>\<open>str(e)\<close> of a \<^verbatim>\<open>KeyError\<close> is the key in quotes.
\<close>

datatype exn = KeyError string | IntegrityError string | Exception string

definition str_exn :: "exn \<Rightarrow> string" where
  "str_exn e =
     (case e of
        KeyError k \<Rightarrow> [CHR 0x27] @ k @ [CHR 0x27]
      | IntegrityError m \<Rightarrow> m
      | Exception m \<Rightarrow> m)"

text \<open>
  A row of the data frame that \<^verbatim>\<open>pd.read_csv\<close> gives for an uploaded file: one field
  for each column the import reads, \<^const>\<open>None\<close> where the file has no such column.
  A cell has the type of the store field it goes to (the store's conversion of text
  is not modelled).
\<close>

record csv_row =
  col_transaction_id :: "string option"
  col_date :: "date option"
  col_category :: "string option"
  col_merchant :: "string option"
  col_amount :: "rat option"
  col_payment_method :: "string option"
  col_description :: "string option"
  col_investment_id :: "string option"
  col_product_type :: "string option"
  col_product_name :: "string option"
  col_purchase_date :: "date option"
  col_invested_amount :: "rat option"
  col_current_value :: "rat option"
  col_units :: "rat option"
  col_purchase_nav :: "rat option"
  col_current_nav :: "rat option"
  col_returns_absolute :: "rat option"
  col_returns_percentage :: "rat option"
  col_risk_level :: "string option"

text \<open>
  The stored file of an \<^verbatim>\<open>UploadedFile\<close> is what \<^verbatim>\<open>pd.read_csv\<close> makes of it: the
  rows, or the exception it raises on a file it cannot parse.
\<close>

record uploaded_file =
  uf_file_name :: string
  uf_file_type :: string
  uf_file_path :: "exn + csv_row list"
  uf_uploaded_by :: string
  uf_processed :: bool
  uf_records_imported :: nat

record store =
  customers :: "customer list"
  transactions :: "transaction list"
  investments :: "investment list"
  conversations :: "chat_conversation list"
  messages :: "chat_message list"
  uploaded_files :: "uploaded_file list"

text \<open>\<^verbatim>\<open>Customer.objects.get(customer_id=...)\<close>, \<^const>\<open>None\<close> for \<^verbatim>\<open>DoesNotExist\<close>\<close>

definition get_customer :: "store \<Rightarrow> string \<Rightarrow> customer option" where
  "get_customer s customer_id = find (\<lambda>c. c_customer_id c = customer_id) (customers s)"

text \<open>
  The two query sets of \<^verbatim>\<open>get_customer_context\<close>. Rows with equal sort keys come in
  table order (the order a database gives them is its own).
\<close>

definition recent_transactions_of :: "store \<Rightarrow> date \<Rightarrow> string \<Rightarrow> transaction list" where
  "recent_transactions_of s today customer_id =
     (let six_months_ago = today - 180
      in take 50 (sort_key (\<lambda>t. - t_date t)
           (filter (\<lambda>t. t_customer t = customer_id \<and> six_months_ago \<le> t_date t)
              (transactions s))))"

definition investments_of :: "store \<Rightarrow> string \<Rightarrow> investment list" where
  "investments_of s customer_id =
     sort_key (\<lambda>i. - i_purchase_date i)
       (filter (\<lambda>i. i_customer i = customer_id) (investments s))"

record customer_context =
  ctx_customer :: customer
  ctx_transactions :: "transaction list"
  ctx_investments :: "investment list"
  ctx_transaction_summary :: "transaction_summary option"
  ctx_investment_summary :: "investment_summary option"

text \<open>
  \<^verbatim>\<open>get_customer_context\<close>, with today's date as an argument. The empty dictionary for
  an unknown customer is \<^const>\<open>None\<close>. The dictionaries built from each row are the rows.
\<close>

definition get_customer_context :: "store \<Rightarrow> date \<Rightarrow> string \<Rightarrow> customer_context option" where
  "get_customer_context s today customer_id =
     (case get_customer s customer_id of
        None \<Rightarrow> None
      | Some customer \<Rightarrow>
          let recent_transactions = recent_transactions_of s today (c_customer_id customer);
              invs = investments_of s (c_customer_id customer)
          in Some \<lparr>ctx_customer = customer,
                   ctx_transactions = recent_transactions,
                   ctx_investments = invs,
                   ctx_transaction_summary = calculate_transaction_summary recent_transactions,
                   ctx_investment_summary = calculate_investment_summary invs\<rparr>)"

record allocation_entry =
  a_product_type :: string
  a_value :: rat
  a_percentage :: rat

record portfolio_allocation =
  total_value :: rat
  allocation :: "allocation_entry list"

text \<open>
  \<^verbatim>\<open>investments.values('product_type').annotate(total_value=Sum('current_value'))\<close>:
  one row per product type, with the sum of the current values of its investments.
\<close>

definition group_step :: "(string \<times> rat) list \<Rightarrow> investment \<Rightarrow> (string \<times> rat) list" where
  "group_step groups i =
     AList.update (i_product_type i)
       (dict_get groups (i_product_type i) 0 + i_current_value i) groups"

definition group_current_value :: "investment list \<Rightarrow> (string \<times> rat) list" where
  "group_current_value invs = foldl group_step [] invs"

definition get_portfolio_allocation :: "store \<Rightarrow> string \<Rightarrow> portfolio_allocation" where
  "get_portfolio_allocation s customer_id =
     (let groups = group_current_value (filter (\<lambda>i. i_customer i = customer_id) (investments s));
          total_portfolio = sum_list (map snd groups)
      in \<lparr>total_value = total_portfolio,
          allocation =
            map (\<lambda>item. \<lparr>a_product_type = display_name (fst item),
                           a_value = snd item,
                           a_percentage =
                             (if 0 < total_portfolio then round2 (snd item / total_portfolio * 100)
                              else 0)\<rparr>)
              groups\<rparr>)"

section \<open>\<^verbatim>\<open>gemini_service.py\<close>\<close>

text \<open>
  What a call of the external service does inside the \<^verbatim>\<open>try\<close> block: it raises, or it
  answers with no \<^verbatim>\<open>parts\<close>, or it answers with the text given. The service is a
  parameter of the model. A prompt is represented by the data it is formatted from.
\<close>

datatype service_reply = Raises string | No_parts | Text string

record history_entry =
  h_role :: string
  h_content :: string
  h_thought_signature :: "string option"

record generation_request =
  g_context :: customer_context
  g_user_query :: string
  g_is_first_message :: bool
  g_chat_history :: "(string \<times> string) list"

record gemini_service =
  classify_call :: "string \<Rightarrow> service_reply"
  generate_call :: "generation_request \<Rightarrow> service_reply"

text \<open>The five intents that the prompt of \<^verbatim>\<open>classify_intent\<close> names.\<close>

definition intents :: "string list" where
  "intents = [''transaction_analysis'', ''investment_overview'', ''recommendation'',
              ''general_query'', ''summary'']"

definition classify_intent :: "gemini_service \<Rightarrow> string \<Rightarrow> string" where
  "classify_intent gemini query =
     (case classify_call gemini query of
        Text t \<Rightarrow> lower (strip t)
      | No_parts \<Rightarrow> ''general_query''
      | Raises e \<Rightarrow> ''general_query'')"

definition model_name :: string where
  "model_name = ''gemini-2.0-flash''"

definition no_parts_message :: string where
  "no_parts_message =
     ''I'' @ [CHR 0x27] @ ''m having trouble thinking of a detailed response. Could you ask differently?''"

text \<open>The text holds U+1F605, four bytes in UTF-8.\<close>

definition glitch_message :: string where
  "glitch_message =
     ''Oops, technical glitch! '' @ [CHR 0xF0, CHR 0x9F, CHR 0x98, CHR 0x85]
       @ '' Try again in a moment.''"

record ai_response =
  response :: string
  thought_signature :: "string option"
  model_used :: "string option"
  error :: "string option"

text \<open>\<^verbatim>\<open>_humanize_response\<close>\<close>

definition humanize_response :: "string \<Rightarrow> string" where
  "humanize_response r = strip r"

text \<open>
  \<^verbatim>\<open>generate_response\<close>. The argument \<^verbatim>\<open>previous_thought_signature\<close> is not read by
  the source either.
\<close>

definition generate_response ::
  "gemini_service \<Rightarrow> string \<Rightarrow> customer_context \<Rightarrow> history_entry list \<Rightarrow> string option
     \<Rightarrow> ai_response" where
  "generate_response gemini user_query context_data conversation_history previous_thought_signature =
     (let is_first_message = (conversation_history = [] \<or> length conversation_history \<le> 1);
          chat_history =
            map (\<lambda>msg. (if h_role msg = ''user'' then ''user'' else ''model'', h_content msg))
              (drop (length conversation_history - 8) conversation_history)
      in case generate_call gemini
                \<lparr>g_context = context_data, g_user_query = user_query,
                 g_is_first_message = is_first_message, g_chat_history = chat_history\<rparr> of
           Text t \<Rightarrow>
             \<lparr>response = humanize_response t, thought_signature = None,
              model_used = Some model_name, error = None\<rparr>
         | No_parts \<Rightarrow>
             \<lparr>response = no_parts_message, thought_signature = None,
              model_used = Some model_name, error = None\<rparr>
         | Raises e \<Rightarrow>
             \<lparr>response = glitch_message, thought_signature = None,
              model_used = None, error = Some e\<rparr>)"

definition all_suggestions :: "(string \<times> string list) list" where
  "all_suggestions =
     [(''transaction_analysis'',
         [''Break down my spending by category'',
          ''Were there any large, one-time expenses?'',
          ''How does my spending compare to my income?'']),
      (''investment_overview'',
         [''Which investment has the highest return?'',
          ''What'' @ [CHR 0x27] @ ''s the risk level of my overall portfolio?'',
          ''Tell me more about my worst-performing asset.'']),
      (''recommendation'',
         [''Based on my risk profile, what should I buy next?'',
          ''I have '' @ [CHR 0xE2, CHR 0x82, CHR 0xB9] @ ''50,000 to invest, what do you suggest?'',
          ''How can I better align my portfolio with my goals?'']),
      (''summary'',
         [''Give me a detailed financial health report.'',
          ''What are the top 3 insights from my data?'',
          ''Summarize my financial situation in one paragraph.'']),
      (''general_query'',
         [''Analyze my spending habits.'',
          ''Give me a deep dive into my investments.'',
          ''What'' @ [CHR 0x27] @ ''s one thing I could do better financially?''])]"

text \<open>
  \<^verbatim>\<open>generate_follow_up_suggestions\<close>; \<^verbatim>\<open>random.sample\<close> is the argument \<open>sample\<close>.
\<close>

definition generate_follow_up_suggestions ::
  "(string list \<Rightarrow> nat \<Rightarrow> string list) \<Rightarrow> string \<Rightarrow> string list" where
  "generate_follow_up_suggestions sample intent =
     (let suggestions = dict_get all_suggestions intent (dict_get all_suggestions ''general_query'' [])
      in sample suggestions (min 3 (length suggestions)))"

section \<open>\<^verbatim>\<open>views.py\<close>\<close>

datatype body =
    Field_errors "string list"
  | Error_message string
  | Chat_reply string string string "string list" nat nat
  | Upload_reply string nat

text \<open>
  \<^verbatim>\<open>Response(data, status=...)\<close>. A chat reply holds \<^verbatim>\<open>conversation_id\<close>,
  \<^verbatim>\<open>response\<close>, \<^verbatim>\<open>intent\<close>, \<^verbatim>\<open>suggestions\<close> and the two counts of
  \<^verbatim>\<open>data_context\<close>; an upload reply holds \<^verbatim>\<open>message\<close> and \<^verbatim>\<open>records_imported\<close>.
\<close>

datatype http_response = Response body nat

subsection \<open>The chat endpoint\<close>

text \<open>
  A request is what \<^verbatim>\<open>ChatRequestSerializer\<close> makes of it: its field errors, or the
  validated \<^verbatim>\<open>customer_id\<close>, \<^verbatim>\<open>message\<close> and \<^verbatim>\<open>conversation_id\<close>.
\<close>

datatype chat_request = Invalid "string list" | Valid string string "string option"

text \<open>
  What a request takes from outside the store: the service, \<^verbatim>\<open>uuid.uuid4()\<close>,
  \<^verbatim>\<open>random.sample\<close> and today's date.
\<close>

record environment =
  env_gemini :: gemini_service
  env_uuid4 :: string
  env_sample :: "string list \<Rightarrow> nat \<Rightarrow> string list"
  env_today :: date

text \<open>
  \<^verbatim>\<open>_create_new_conversation\<close>. The column \<^verbatim>\<open>conversation_id\<close> is unique: the
  store refuses a second row with the same key.
\<close>

definition create_new_conversation ::
  "string \<Rightarrow> customer \<Rightarrow> store \<Rightarrow> exn + chat_conversation \<times> store" where
  "create_new_conversation uuid customer s =
     (if uuid \<in> set (map cc_conversation_id (conversations s))
      then Inl (IntegrityError ''UNIQUE constraint failed: chat_conversations.conversation_id'')
      else
        let conversation =
              \<lparr>cc_conversation_id = uuid, cc_customer = c_customer_id customer, cc_is_active = True\<rparr>
        in Inr (conversation, s\<lparr>conversations := conversations s @ [conversation]\<rparr>))"

text \<open>
  \<^verbatim>\<open>ChatConversation.objects.get(conversation_id=conversation_id, customer=customer)\<close>
\<close>

definition get_conversation :: "store \<Rightarrow> string \<Rightarrow> customer \<Rightarrow> chat_conversation option" where
  "get_conversation s conversation_id customer =
     find (\<lambda>c. cc_conversation_id c = conversation_id \<and> cc_customer c = c_customer_id customer)
       (conversations s)"

text \<open>The branch \<open>Get or create conversation\<close> of \<^verbatim>\<open>post\<close>; an empty key is false in Python.\<close>

definition get_or_create_conversation ::
  "string \<Rightarrow> string option \<Rightarrow> customer \<Rightarrow> store \<Rightarrow> exn + chat_conversation \<times> store" where
  "get_or_create_conversation uuid conversation_id customer s =
     (case conversation_id of
        None \<Rightarrow> create_new_conversation uuid customer s
      | Some key \<Rightarrow>
          if key = [] then create_new_conversation uuid customer s
          else
            (case get_conversation s key customer of
               Some conversation \<Rightarrow> Inr (conversation, s)
             | None \<Rightarrow> create_new_conversation uuid customer s))"

text \<open>\<^verbatim>\<open>ChatMessage.objects.create(...)\<close>\<close>

definition create_message :: "chat_message \<Rightarrow> store \<Rightarrow> store" where
  "create_message m s = s\<lparr>messages := messages s @ [m]\<rparr>"

text \<open>
  \<^verbatim>\<open>_get_conversation_history\<close>: the messages of the conversation by time stamp, which
  is the order they were created in.
\<close>

definition get_conversation_history :: "store \<Rightarrow> chat_conversation \<Rightarrow> history_entry list" where
  "get_conversation_history s conversation =
     map (\<lambda>msg. \<lparr>h_role = m_role msg, h_content = m_content msg,
                  h_thought_signature = m_thought_signature msg\<rparr>)
       (filter (\<lambda>msg. m_conversation msg = cc_conversation_id conversation) (messages s))"

text \<open>The thought signature of the last assistant message, if there is one.\<close>

definition previous_thought_of :: "history_entry list \<Rightarrow> string option" where
  "previous_thought_of conversation_history =
     (case find (\<lambda>msg. h_role msg = ''assistant'') (rev conversation_history) of
        None \<Rightarrow> None
      | Some last_assistant_msg \<Rightarrow> h_thought_signature last_assistant_msg)"

text \<open>
  \<^verbatim>\<open>ChatAPIView.post\<close>: the response or the exception that leaves the handler, and
  the store as the request leaves it.
\<close>

definition post :: "environment \<Rightarrow> chat_request \<Rightarrow> store \<Rightarrow> (exn + http_response) \<times> store" where
  "post env request s =
     (case request of
        Invalid errors \<Rightarrow> (Inr (Response (Field_errors errors) 400), s)
      | Valid customer_id user_message conversation_id \<Rightarrow>
          (case get_customer s customer_id of
             None \<Rightarrow> (Inr (Response (Error_message ''Customer not found'') 404), s)
           | Some customer \<Rightarrow>
               (case get_or_create_conversation (env_uuid4 env) conversation_id customer s of
                  Inl e \<Rightarrow> (Inl e, s)
                | Inr (conversation, s1) \<Rightarrow>
                    let s2 = create_message
                               \<lparr>m_conversation = cc_conversation_id conversation, m_role = ''user'',
                                m_content = user_message, m_intent = None, m_data_sources = [],
                                m_thought_signature = None\<rparr> s1;
                        conversation_history = get_conversation_history s2 conversation;
                        intent = classify_intent (env_gemini env) user_message
                    in (case get_customer_context s2 (env_today env) customer_id of
                          None \<Rightarrow> (Inl (KeyError ''customer''), s2)
                        | Some context_data \<Rightarrow>
                            let previous_thought = previous_thought_of conversation_history;
                                ai = generate_response (env_gemini env) user_message context_data
                                       conversation_history previous_thought;
                                s3 = create_message
                                       \<lparr>m_conversation = cc_conversation_id conversation,
                                        m_role = ''assistant'', m_content = response ai,
                                        m_intent = Some intent,
                                        m_data_sources =
                                          [''transactions'', ''investments'', ''customer_profile''],
                                        m_thought_signature = thought_signature ai\<rparr> s2;
                                suggestions =
                                  generate_follow_up_suggestions (env_sample env) intent
                            in (Inr (Response
                                       (Chat_reply (cc_conversation_id conversation) (response ai)
                                          intent suggestions
                                          (length (ctx_transactions context_data))
                                          (length (ctx_investments context_data)))
                                       200),
                                s3)))))"

subsection \<open>The upload endpoint\<close>

text \<open>\<^verbatim>\<open>row['column']\<close> raises \<^verbatim>\<open>KeyError\<close> when the frame has no such column.\<close>

definition row_item :: "string \<Rightarrow> 'a option \<Rightarrow> exn + 'a" where
  "row_item column cell = (case cell of None \<Rightarrow> Inl (KeyError column) | Some v \<Rightarrow> Inr v)"

text \<open>\<^verbatim>\<open>row.get('column', default)\<close>\<close>

definition row_get :: "'a option \<Rightarrow> 'a \<Rightarrow> 'a" where
  "row_get cell dflt = (case cell of None \<Rightarrow> dflt | Some v \<Rightarrow> v)"

definition and_then :: "exn + 'a \<Rightarrow> ('a \<Rightarrow> exn + 'b) \<Rightarrow> exn + 'b" where
  "and_then r f = (case r of Inl e \<Rightarrow> Inl e | Inr v \<Rightarrow> f v)"

text \<open>
  The arguments of \<^verbatim>\<open>Transaction.objects.get_or_create\<close> for a row, read in the order
  Python evaluates them, before the call.
\<close>

definition transaction_of_row :: "customer \<Rightarrow> csv_row \<Rightarrow> exn + transaction" where
  "transaction_of_row customer row =
     and_then (row_item ''transaction_id'' (col_transaction_id row)) (\<lambda>transaction_id.
     and_then (row_item ''date'' (col_date row)) (\<lambda>date.
     and_then (row_item ''category'' (col_category row)) (\<lambda>category.
     and_then (row_item ''merchant'' (col_merchant row)) (\<lambda>merchant.
     and_then (row_item ''amount'' (col_amount row)) (\<lambda>amount.
       Inr \<lparr>t_transaction_id = transaction_id,
            t_customer = c_customer_id customer,
            t_date = date,
            t_category = category,
            t_merchant = merchant,
            t_amount = amount,
            t_payment_method = row_get (col_payment_method row) ''upi'',
            t_description = row_get (col_description row) []\<rparr>)))))"

definition investment_of_row :: "customer \<Rightarrow> csv_row \<Rightarrow> exn + investment" where
  "investment_of_row customer row =
     and_then (row_item ''investment_id'' (col_investment_id row)) (\<lambda>investment_id.
     and_then (row_item ''product_type'' (col_product_type row)) (\<lambda>product_type.
     and_then (row_item ''product_name'' (col_product_name row)) (\<lambda>product_name.
     and_then (row_item ''purchase_date'' (col_purchase_date row)) (\<lambda>purchase_date.
     and_then (row_item ''invested_amount'' (col_invested_amount row)) (\<lambda>invested_amount.
     and_then (row_item ''current_value'' (col_current_value row)) (\<lambda>cur_value.
     and_then (row_item ''returns_absolute'' (col_returns_absolute row)) (\<lambda>returns_absolute.
     and_then (row_item ''returns_percentage'' (col_returns_percentage row)) (\<lambda>returns_percentage.
     and_then (row_item ''risk_level'' (col_risk_level row)) (\<lambda>risk_level.
       Inr \<lparr>i_investment_id = investment_id,
            i_customer = c_customer_id customer,
            i_product_type = product_type,
            i_product_name = product_name,
            i_purchase_date = purchase_date,
            i_invested_amount = invested_amount,
            i_current_value = cur_value,
            i_units = row_get (col_units row) 0,
            i_purchase_nav = row_get (col_purchase_nav row) 0,
            i_current_nav = row_get (col_current_nav row) 0,
            i_returns_absolute = returns_absolute,
            i_returns_percentage = returns_percentage,
            i_risk_level = risk_level\<rparr>)))))))))"

text \<open>
  \<^verbatim>\<open>get_or_create\<close>: a row with the key is left as it is, and only a missing key
  creates the record from the defaults.
\<close>

definition get_or_create_transaction :: "transaction \<Rightarrow> store \<Rightarrow> store" where
  "get_or_create_transaction t s =
     (case find (\<lambda>x. t_transaction_id x = t_transaction_id t) (transactions s) of
        Some existing \<Rightarrow> s
      | None \<Rightarrow> s\<lparr>transactions := transactions s @ [t]\<rparr>)"

definition get_or_create_investment :: "investment \<Rightarrow> store \<Rightarrow> store" where
  "get_or_create_investment i s =
     (case find (\<lambda>x. i_investment_id x = i_investment_id i) (investments s) of
        Some existing \<Rightarrow> s
      | None \<Rightarrow> s\<lparr>investments := investments s @ [i]\<rparr>)"

text \<open>
  The two loops of \<^verbatim>\<open>process_uploaded_file\<close>, with \<^verbatim>\<open>records_imported\<close> as
  accumulator. A row that raises ends the loop; the rows before it stay imported.
\<close>

fun import_transactions ::
  "customer \<Rightarrow> csv_row list \<Rightarrow> nat \<Rightarrow> store \<Rightarrow> (exn + nat) \<times> store" where
  "import_transactions customer [] records_imported s = (Inr records_imported, s)"
| "import_transactions customer (row # rows) records_imported s =
     (case transaction_of_row customer row of
        Inl e \<Rightarrow> (Inl e, s)
      | Inr t \<Rightarrow>
          import_transactions customer rows (records_imported + 1) (get_or_create_transaction t s))"

fun import_investments ::
  "customer \<Rightarrow> csv_row list \<Rightarrow> nat \<Rightarrow> store \<Rightarrow> (exn + nat) \<times> store" where
  "import_investments customer [] records_imported s = (Inr records_imported, s)"
| "import_investments customer (row # rows) records_imported s =
     (case investment_of_row customer row of
        Inl e \<Rightarrow> (Inl e, s)
      | Inr i \<Rightarrow>
          import_investments customer rows (records_imported + 1) (get_or_create_investment i s))"

definition process_uploaded_file ::
  "uploaded_file \<Rightarrow> customer \<Rightarrow> store \<Rightarrow> (exn + nat) \<times> store" where
  "process_uploaded_file uploaded customer s =
     (case uf_file_path uploaded of
        Inl e \<Rightarrow> (Inl e, s)
      | Inr df \<Rightarrow>
          if uf_file_type uploaded = ''transaction'' then import_transactions customer df 0 s
          else if uf_file_type uploaded = ''investment'' then import_investments customer df 0 s
          else (Inr 0, s))"

text \<open>
  The form of an upload: the file (its name and what \<^verbatim>\<open>pd.read_csv\<close> makes of it),
  \<^verbatim>\<open>file_type\<close> and \<^verbatim>\<open>customer_id\<close>, each present or not.
\<close>

record upload_request =
  ur_file :: "(string \<times> (exn + csv_row list)) option"
  ur_file_type :: "string option"
  ur_customer_id :: "string option"

text \<open>
  \<^verbatim>\<open>upload_file\<close>. A field of the form that is missing or empty is false in Python.
  The metadata record is created before the file is processed and saved again after
  it; an exception while processing leaves it as created.
\<close>

definition upload_file :: "upload_request \<Rightarrow> store \<Rightarrow> http_response \<times> store" where
  "upload_file request s =
     (case ur_file request of
        None \<Rightarrow> (Response (Error_message ''No file provided'') 400, s)
      | Some file \<Rightarrow>
          let file_type = (case ur_file_type request of None \<Rightarrow> [] | Some v \<Rightarrow> v);
              customer_id = (case ur_customer_id request of None \<Rightarrow> [] | Some v \<Rightarrow> v)
          in if file_type = [] \<or> customer_id = []
             then (Response (Error_message ''file_type and customer_id are required'') 400, s)
             else
               (case get_customer s customer_id of
                  None \<Rightarrow> (Response (Error_message ''Customer not found'') 404, s)
                | Some customer \<Rightarrow>
                    let uploaded =
                          \<lparr>uf_file_name = fst file,
                           uf_file_type = file_type,
                           uf_file_path = snd file,
                           uf_uploaded_by = c_customer_id customer,
                           uf_processed = False,
                           uf_records_imported = 0\<rparr>;
                        row_id = length (uploaded_files s);
                        s1 = s\<lparr>uploaded_files := uploaded_files s @ [uploaded]\<rparr>
                    in (case process_uploaded_file uploaded customer s1 of
                          (Inr records_imported, s2) \<Rightarrow>
                            (Response
                               (Upload_reply ''File uploaded and processed successfully''
                                  records_imported)
                               201,
                             s2\<lparr>uploaded_files :=
                                  (uploaded_files s2)
                                    [row_id := uploaded\<lparr>uf_processed := True,
                                                        uf_records_imported := records_imported\<rparr>]\<rparr>)
                        | (Inl e, s2) \<Rightarrow>
                            (Response (Error_message (''Error processing file: '' @ str_exn e)) 500,
                             s2))))"

section \<open>Example inputs\<close>

definition example_customer :: customer where
  "example_customer =
     \<lparr>c_customer_id = ''C1'', c_name = ''Asha'', c_age = 30, c_risk_level = ''medium'',
      c_annual_income = 1200000, c_financial_goals = ''retirement'',
      c_account_opening_date = 738000, c_email = ''asha@example.com'', c_phone = ''0000''\<rparr>"

definition example_transaction :: "string \<Rightarrow> date \<Rightarrow> string \<Rightarrow> rat \<Rightarrow> transaction" where
  "example_transaction tid d cat a =
     \<lparr>t_transaction_id = tid, t_customer = ''C1'', t_date = d, t_category = cat,
      t_merchant = ''Shop'', t_amount = a, t_payment_method = ''upi'', t_description = []\<rparr>"

definition example_investment :: "string \<Rightarrow> string \<Rightarrow> rat \<Rightarrow> rat \<Rightarrow> investment" where
  "example_investment iid ptype invested cur =
     \<lparr>i_investment_id = iid, i_customer = ''C1'', i_product_type = ptype,
      i_product_name = ''Fund'', i_purchase_date = 738500, i_invested_amount = invested,
      i_current_value = cur, i_units = 0, i_purchase_nav = 0, i_current_nav = 0,
      i_returns_absolute = cur - invested, i_returns_percentage = 0, i_risk_level = ''low''\<rparr>"

definition example_store :: "transaction list \<Rightarrow> investment list \<Rightarrow> store" where
  "example_store ts invs =
     \<lparr>customers = [example_customer], transactions = ts, investments = invs,
      conversations = [], messages = [], uploaded_files = []\<rparr>"

text \<open>Two transactions fifteen days apart.\<close>

definition two_weeks :: "transaction list" where
  "two_weeks = [example_transaction ''T1'' 739000 ''groceries'' 100,
                example_transaction ''T2'' 739015 ''dining'' 100]"

text \<open>Two raw categories with one display name.\<close>

definition mixed_case :: "transaction list" where
  "mixed_case = [example_transaction ''T1'' 739000 ''food'' 100,
                 example_transaction ''T2'' 739000 ''Food'' 50]"

definition two_holdings :: "investment list" where
  "two_holdings = [example_investment ''I1'' ''mutual_fund'' 100 130,
                   example_investment ''I2'' ''stocks'' 100 90]"

text \<open>A holding whose invested amount is negative, as the decimal field admits.\<close>

definition negative_holding :: "investment list" where
  "negative_holding = [example_investment ''I1'' ''mutual_fund'' (- 100) 50]"

text \<open>Three holdings of 100 each in two product types.\<close>

definition three_holdings :: "investment list" where
  "three_holdings = [example_investment ''I1'' ''mutual_fund'' 100 100,
                     example_investment ''I2'' ''stocks'' 100 100,
                     example_investment ''I3'' ''mutual_fund'' 100 100]"

text \<open>A service that answers the classification in a sentence, and one that answers with
  an intent name in capitals and spaces around it.\<close>

definition chatty_service :: gemini_service where
  "chatty_service =
     \<lparr>classify_call = (\<lambda>query. Text ''  I think this is about Spending. ''),
      generate_call = (\<lambda>request. No_parts)\<rparr>"

definition shouting_service :: gemini_service where
  "shouting_service =
     \<lparr>classify_call = (\<lambda>query. Text '' Transaction_Analysis ''),
      generate_call = (\<lambda>request. Raises ''503'')\<rparr>"

text \<open>A service whose generation call raises, an environment with it, and a store where
  the only conversation belongs to a second customer.\<close>

definition failing_service :: gemini_service where
  "failing_service =
     \<lparr>classify_call = (\<lambda>query. Text ''summary''),
      generate_call = (\<lambda>request. Raises ''503 service unavailable'')\<rparr>"

definition example_environment :: environment where
  "example_environment =
     \<lparr>env_gemini = failing_service, env_uuid4 = ''uuid-2'',
      env_sample = (\<lambda>xs n. take n xs), env_today = 739020\<rparr>"

definition other_customer :: customer where
  "other_customer = example_customer\<lparr>c_customer_id := ''C2'', c_name := ''Ravi''\<rparr>"

definition shared_store :: store where
  "shared_store =
     \<lparr>customers = [example_customer, other_customer], transactions = [], investments = [],
      conversations = [\<lparr>cc_conversation_id = ''uuid-1'', cc_customer = ''C2'', cc_is_active = True\<rparr>],
      messages = [\<lparr>m_conversation = ''uuid-1'', m_role = ''user'', m_content = ''Hello'',
                   m_intent = None, m_data_sources = [], m_thought_signature = None\<rparr>],
      uploaded_files = []\<rparr>"

text \<open>Rows and uploads: a file of customer data, a file that cannot be parsed, and a
  file of three transaction rows, the first with a key the store has and the last two
  with the same new key.\<close>

definition empty_row :: csv_row where
  "empty_row =
     \<lparr>col_transaction_id = None, col_date = None, col_category = None, col_merchant = None,
      col_amount = None, col_payment_method = None, col_description = None,
      col_investment_id = None, col_product_type = None, col_product_name = None,
      col_purchase_date = None, col_invested_amount = None, col_current_value = None,
      col_units = None, col_purchase_nav = None, col_current_nav = None,
      col_returns_absolute = None, col_returns_percentage = None, col_risk_level = None\<rparr>"

definition transaction_row :: "string \<Rightarrow> rat \<Rightarrow> csv_row" where
  "transaction_row tid a =
     empty_row\<lparr>col_transaction_id := Some tid, col_date := Some 739000,
               col_category := Some ''groceries'', col_merchant := Some ''Shop'',
               col_amount := Some a\<rparr>"

definition unreadable_upload :: upload_request where
  "unreadable_upload =
     \<lparr>ur_file = Some (''notes.pdf'', Inl (Exception ''No columns to parse from file'')),
      ur_file_type = Some ''document'', ur_customer_id = Some ''C1''\<rparr>"

definition customer_upload :: upload_request where
  "customer_upload =
     \<lparr>ur_file = Some (''customers.csv'', Inr [empty_row]),
      ur_file_type = Some ''customer'', ur_customer_id = Some ''C1''\<rparr>"

definition transaction_file :: uploaded_file where
  "transaction_file =
     \<lparr>uf_file_name = ''transactions.csv'', uf_file_type = ''transaction'',
      uf_file_path = Inr [transaction_row ''T1'' 999, transaction_row ''T9'' 20,
                          transaction_row ''T9'' 30],
      uf_uploaded_by = ''C1'', uf_processed = False, uf_records_imported = 0\<rparr>"

text \<open>An environment whose \<^verbatim>\<open>uuid.uuid4()\<close> gives the key of the stored conversation.\<close>

definition colliding_environment :: environment where
  "colliding_environment = example_environment\<lparr>env_uuid4 := ''uuid-1''\<rparr>"

section \<open>The summaries of the customer context\<close>

lemma get_customer_context_SomeD:
  assumes "get_customer_context s today customer_id = Some ctx"
  shows "ctx_transaction_summary ctx = calculate_transaction_summary (ctx_transactions ctx)"
    and "ctx_investment_summary ctx = calculate_investment_summary (ctx_investments ctx)"
  using assms by (auto simp: get_customer_context_def Let_def split: option.splits)

lemma months_covered_of_eq:
  "months_covered_of dates =
     (if Max (set dates) - Min (set dates) = 0 then 1
      else of_int (Max (set dates) - Min (set dates)) / 30)"
  by (simp add: months_covered_of_def Let_def)

lemma span_nonneg:
  assumes "dates \<noteq> []"
  shows "0 \<le> Max (set dates) - Min (set (dates :: date list))"
proof -
  have "Min (set dates) \<le> Max (set dates)"
    using assms by (simp add: Min_le_iff)
  then show ?thesis by simp
qed

lemma two_weeks_context:
  "get_customer_context (example_store two_weeks []) 739020 ''C1'' =
     Some \<lparr>ctx_customer = example_customer,
           ctx_transactions = rev two_weeks,
           ctx_investments = [],
           ctx_transaction_summary =
             Some \<lparr>total_spent = 200, monthly_average = 400,
                   top_categories = [''Dining'', ''Groceries''],
                   category_breakdown = [(''Dining'', 100), (''Groceries'', 100)],
                   transaction_count = 2\<rparr>,
           ctx_investment_summary = None\<rparr>"
  by code_simp

lemma two_holdings_context:
  "get_customer_context (example_store [] two_holdings) 739020 ''C1'' =
     Some \<lparr>ctx_customer = example_customer,
           ctx_transactions = [],
           ctx_investments = two_holdings,
           ctx_transaction_summary = None,
           ctx_investment_summary =
             Some \<lparr>total_invested = 200, current_value = 220, total_returns = 20,
                   return_percentage = 10, product_types = [''Mutual Fund'', ''Stocks''],
                   investment_count = 2, best_performer = Some (''Fund'', 0)\<rparr>\<rparr>"
  by code_simp

text \<open>
  C1, as the code has it. For a customer with at least one retrieved transaction the
  summary exists and its monthly average is the total spend divided by a positive
  divisor: 1 when all retrieved dates are the same day, and otherwise the span of the
  dates in days divided by 30. The divisor is \<open>max 1 (span / 30)\<close> when the span is 0
  or at least 30 days; for a span of 1 to 29 days it is below 1 and is not raised to 1.
\<close>

theorem monthly_average_divisor:
  assumes "get_customer_context s today customer_id = Some ctx"
    and "ctx_transactions ctx \<noteq> []"
  shows "\<exists>summary. ctx_transaction_summary ctx = Some summary \<and>
           (let dates = map t_date (ctx_transactions ctx);
                span = Max (set dates) - Min (set dates);
                total = sum_list (map t_amount (ctx_transactions ctx));
                divisor = (if span = 0 then 1 else of_int span / 30)
            in 0 \<le> span \<and> 0 < divisor \<and> monthly_average summary = total / divisor \<and>
               (span = 0 \<or> 30 \<le> span \<longrightarrow> divisor = max 1 (of_int span / 30)) \<and>
               (0 < span \<and> span < 30 \<longrightarrow> divisor < 1))"
proof -
  let ?ts = "ctx_transactions ctx"
  let ?dates = "map t_date ?ts"
  let ?span = "Max (set ?dates) - Min (set ?dates)"
  have ne: "?dates \<noteq> []" using assms(2) by simp
  have span: "0 \<le> ?span" by (rule span_nonneg [OF ne])
  obtain summary where s: "calculate_transaction_summary ?ts = Some summary"
    and m: "monthly_average summary = sum_list (map t_amount ?ts) / months_covered_of ?dates"
    using assms(2) by (simp add: calculate_transaction_summary_def Let_def)
  have "ctx_transaction_summary ctx = Some summary"
    using get_customer_context_SomeD(1) [OF assms(1)] s by simp
  moreover have "months_covered_of ?dates = (if ?span = 0 then 1 else of_int ?span / 30)"
    by (rule months_covered_of_eq)
  ultimately show ?thesis
    using m span by (auto simp: Let_def max_def)
qed

theorem monthly_average_divisor_witness:
  "get_customer_context (example_store two_weeks []) 739020 ''C1'' \<noteq> None \<and>
   map_option monthly_average
     (Option.bind (get_customer_context (example_store two_weeks []) 739020 ''C1'')
        ctx_transaction_summary) = Some (200 / (15 / 30))"
proof -
  let ?ctx = "\<lparr>ctx_customer = example_customer,
           ctx_transactions = rev two_weeks,
           ctx_investments = [],
           ctx_transaction_summary =
             Some \<lparr>total_spent = 200, monthly_average = 400,
                   top_categories = [''Dining'', ''Groceries''],
                   category_breakdown = [(''Dining'', 100), (''Groceries'', 100)],
                   transaction_count = 2\<rparr>,
           ctx_investment_summary = None\<rparr>"
  have e: "get_customer_context (example_store two_weeks []) 739020 ''C1'' = Some ?ctx"
    by (rule two_weeks_context)
  have ne: "ctx_transactions ?ctx \<noteq> []"
    by (simp add: two_weeks_def)
  from monthly_average_divisor [OF e ne]
  have "monthly_average (the (ctx_transaction_summary ?ctx)) = 200 / (15 / 30)"
    by (simp add: Let_def two_weeks_def example_transaction_def)
  with e show ?thesis by simp
qed

text \<open>
  C1 as stated fails: for two transactions of 100 each, fifteen days apart, the code's
  monthly average is 400, while total spend divided by \<open>max 1 (span / 30)\<close> is 200.
\<close>

theorem monthly_average_clamp_counterexample:
  "map_option monthly_average
     (Option.bind (get_customer_context (example_store two_weeks []) 739020 ''C1'')
        ctx_transaction_summary) = Some 400 \<and>
   sum_list (map t_amount two_weeks)
     / max 1 (of_int (Max (set (map t_date two_weeks)) - Min (set (map t_date two_weeks))) / 30)
     = 200"
  by (simp add: two_weeks_context) (simp add: two_weeks_def example_transaction_def)

text \<open>
  C2, as the code has it. For a customer with at least one investment the summary
  exists; its return percentage is 0 whenever the total invested amount is not
  positive, and is (sum of current values - sum of invested amounts) / sum of invested
  amounts * 100 whenever the total is positive. So it is 0 exactly when the total
  invested is at most 0 or the current values sum to the invested amounts.
\<close>

theorem return_percentage_guard:
  assumes "get_customer_context s today customer_id = Some ctx"
    and "ctx_investments ctx \<noteq> []"
  shows "\<exists>summary. ctx_investment_summary ctx = Some summary \<and>
           (let invested = sum_list (map i_invested_amount (ctx_investments ctx));
                cur = sum_list (map i_current_value (ctx_investments ctx))
            in total_invested summary = invested \<and>
               (invested \<le> 0 \<longrightarrow> return_percentage summary = 0) \<and>
               (0 < invested \<longrightarrow>
                  return_percentage summary = (cur - invested) / invested * 100) \<and>
               (return_percentage summary = 0 \<longleftrightarrow> invested \<le> 0 \<or> cur = invested))"
proof -
  let ?is = "ctx_investments ctx"
  obtain summary where s: "calculate_investment_summary ?is = Some summary"
    and t: "total_invested summary = sum_list (map i_invested_amount ?is)"
    and p: "return_percentage summary =
              (if 0 < sum_list (map i_invested_amount ?is)
               then (sum_list (map i_current_value ?is) - sum_list (map i_invested_amount ?is))
                      / sum_list (map i_invested_amount ?is) * 100
               else 0)"
    using assms(2) by (simp add: calculate_investment_summary_def Let_def)
  have "ctx_investment_summary ctx = Some summary"
    using get_customer_context_SomeD(2) [OF assms(1)] s by simp
  then show ?thesis
    using t p by (auto simp: Let_def)
qed

theorem return_percentage_guard_witness:
  "get_customer_context (example_store [] two_holdings) 739020 ''C1'' \<noteq> None \<and>
   map_option return_percentage
     (Option.bind (get_customer_context (example_store [] two_holdings) 739020 ''C1'')
        ctx_investment_summary) = Some ((220 - 200) / 200 * 100)"
proof -
  let ?ctx = "\<lparr>ctx_customer = example_customer,
           ctx_transactions = [],
           ctx_investments = two_holdings,
           ctx_transaction_summary = None,
           ctx_investment_summary =
             Some \<lparr>total_invested = 200, current_value = 220, total_returns = 20,
                   return_percentage = 10, product_types = [''Mutual Fund'', ''Stocks''],
                   investment_count = 2, best_performer = Some (''Fund'', 0)\<rparr>\<rparr>"
  have e: "get_customer_context (example_store [] two_holdings) 739020 ''C1'' = Some ?ctx"
    by (rule two_holdings_context)
  have ne: "ctx_investments ?ctx \<noteq> []"
    by (simp add: two_holdings_def)
  from return_percentage_guard [OF e ne]
  have "return_percentage (the (ctx_investment_summary ?ctx)) = (220 - 200) / 200 * 100"
    by (simp add: Let_def two_holdings_def example_investment_def)
  with e show ?thesis by simp
qed

text \<open>
  C2 as stated fails: for one holding with invested amount -100 and current value 50
  the total invested is -100, not 0, and the code's return percentage is 0, while
  (current - invested) / invested * 100 is -150.
\<close>

theorem return_percentage_negative_counterexample:
  "map_option return_percentage
     (Option.bind (get_customer_context (example_store [] negative_holding) 739020 ''C1'')
        ctx_investment_summary) = Some 0 \<and>
   sum_list (map i_invested_amount negative_holding) = - 100 \<and>
   (sum_list (map i_current_value negative_holding)
      - sum_list (map i_invested_amount negative_holding))
     / sum_list (map i_invested_amount negative_holding) * 100 = - 150"
  by code_simp

text \<open>
  C9 at a failing input. The two retrieved transactions have the raw categories
  \<open>food\<close> (100) and \<open>Food\<close> (50), both displayed as \<open>Food\<close>. The breakdown
  holds 50 under \<open>Food\<close>, the amount of the later raw category, while the amounts
  of the transactions whose category is displayed as \<open>Food\<close> sum to 150.
\<close>

theorem category_breakdown_collision:
  "map_option category_breakdown
     (Option.bind (get_customer_context (example_store mixed_case []) 739020 ''C1'')
        ctx_transaction_summary) = Some [(''Food'', 50)] \<and>
   sum_list (map t_amount (filter (\<lambda>t. display_name (t_category t) = ''Food'') mixed_case)) = 150"
  by code_simp

section \<open>The portfolio allocation\<close>

lemma round_half_even_error: "\<bar>of_int (round_half_even y) - y\<bar> \<le> 1 / 2"
proof -
  have lo: "of_int \<lfloor>y\<rfloor> \<le> y" and hi: "y < of_int \<lfloor>y\<rfloor> + 1"
    by linarith+
  show ?thesis
    unfolding round_half_even_def Let_def using lo hi by (simp add: abs_le_iff)
qed

lemma round2_error: "\<bar>round2 x - x\<bar> \<le> 1 / 200"
proof -
  have "\<bar>of_int (round_half_even (x * 100)) - x * 100\<bar> \<le> 1 / 2"
    by (rule round_half_even_error)
  then show ?thesis unfolding round2_def by (simp add: abs_le_iff field_simps)
qed

lemma sum_list_round2_error:
  "\<bar>sum_list (map (\<lambda>x. round2 (f x)) xs) - sum_list (map f xs)\<bar> \<le> of_nat (length xs) / 200"
proof (induction xs)
  case Nil
  then show ?case by simp
next
  case (Cons x xs)
  have "\<bar>round2 (f x) - f x\<bar> \<le> 1 / 200" by (rule round2_error)
  moreover have "\<bar>(round2 (f x) + sum_list (map (\<lambda>x. round2 (f x)) xs)) - (f x + sum_list (map f xs))\<bar>
      \<le> \<bar>round2 (f x) - f x\<bar> + \<bar>sum_list (map (\<lambda>x. round2 (f x)) xs) - sum_list (map f xs)\<bar>"
    by linarith
  ultimately show ?case using Cons.IH by (simp add: add_divide_distrib)
qed

lemma sum_list_share:
  fixes total :: rat
  shows "sum_list (map (\<lambda>x. f x / total * 100) xs) = sum_list (map f xs) / total * 100"
  by (induction xs) (simp_all add: add_divide_distrib distrib_right)

lemma group_current_value_foldl: "group_current_value invs = foldl group_step [] invs"
  by (simp add: group_current_value_def)

lemma sum_snd_update:
  fixes d :: "('k \<times> rat) list"
  assumes "distinct (map fst d)"
  shows "sum_list (map snd (AList.update k (dict_get d k 0 + v) d)) = sum_list (map snd d) + v"
  using assms
proof (induction d)
  case Nil
  then show ?case by (simp add: dict_get_def)
next
  case (Cons p d)
  obtain k' v' where p: "p = (k', v')" by (cases p)
  show ?case
  proof (cases "k' = k")
    case True
    then show ?thesis using p by (simp add: dict_get_def)
  next
    case False
    then have "dict_get (p # d) k 0 = dict_get d k 0"
      using p by (simp add: dict_get_def)
    then show ?thesis using Cons p False by simp
  qed
qed

lemma foldl_group_distinct:
  "distinct (map fst acc) \<Longrightarrow> distinct (map fst (foldl group_step acc invs))"
  by (induction invs arbitrary: acc) (simp_all add: group_step_def distinct_update)

lemma foldl_group_sum:
  "distinct (map fst acc) \<Longrightarrow>
   sum_list (map snd (foldl group_step acc invs)) =
     sum_list (map snd acc) + sum_list (map i_current_value invs)"
proof (induction invs arbitrary: acc)
  case Nil
  then show ?case by simp
next
  case (Cons i invs)
  have d: "distinct (map fst (group_step acc i))"
    using Cons.prems by (simp add: group_step_def distinct_update)
  have "sum_list (map snd (group_step acc i)) = sum_list (map snd acc) + i_current_value i"
    unfolding group_step_def by (rule sum_snd_update [OF Cons.prems])
  with Cons.IH [OF d] show ?case by simp
qed

lemma foldl_group_keys:
  "fst ` set (foldl group_step acc invs) = fst ` set acc \<union> i_product_type ` set invs"
  by (induction invs arbitrary: acc) (auto simp: group_step_def dom_update)

lemma foldl_group_lookup:
  "dict_get (foldl group_step acc invs) p 0 =
     dict_get acc p 0 + sum_list (map i_current_value (filter (\<lambda>i. i_product_type i = p) invs))"
proof (induction invs arbitrary: acc)
  case Nil
  then show ?case by simp
next
  case (Cons i invs)
  have "dict_get (group_step acc i) p 0 =
          dict_get acc p 0 + (if i_product_type i = p then i_current_value i else 0)"
    by (simp add: group_step_def dict_get_def update_conv')
  with Cons.IH [of "group_step acc i"] show ?case by simp
qed

lemma group_current_value_distinct: "distinct (map fst (group_current_value invs))"
  unfolding group_current_value_foldl by (rule foldl_group_distinct) simp

lemma group_current_value_sum:
  "sum_list (map snd (group_current_value invs)) = sum_list (map i_current_value invs)"
  unfolding group_current_value_foldl using foldl_group_sum [of "[]" invs] by simp

lemma group_current_value_keys:
  "set (map fst (group_current_value invs)) = i_product_type ` set invs"
  unfolding group_current_value_foldl using foldl_group_keys [of "[]" invs] by simp

lemma group_current_value_entry:
  assumes "(p, v) \<in> set (group_current_value invs)"
  shows "v = sum_list (map i_current_value (filter (\<lambda>i. i_product_type i = p) invs))"
proof -
  have "map_of (group_current_value invs) p = Some v"
    using assms group_current_value_distinct by (simp add: map_of_eq_Some_iff)
  then have "dict_get (group_current_value invs) p 0 = v"
    by (simp add: dict_get_def)
  then show ?thesis
    unfolding group_current_value_foldl using foldl_group_lookup [of "[]" invs p]
    by (simp add: dict_get_def)
qed

lemma three_holdings_allocation:
  "get_portfolio_allocation (example_store [] three_holdings) ''C1'' =
     \<lparr>total_value = 300,
      allocation = [\<lparr>a_product_type = ''Mutual Fund'', a_value = 200, a_percentage = 6667 / 100\<rparr>,
                    \<lparr>a_product_type = ''Stocks'', a_value = 100, a_percentage = 3333 / 100\<rparr>]\<rparr>"
  by code_simp

text \<open>
  C3. For every store and customer, \<^verbatim>\<open>get_portfolio_allocation\<close> returns as total value
  the sum of the current values of the customer's investments and one entry for each
  product type among them; the entry holds the display name of the type, the sum of
  the current values of the investments of that type, and as percentage that value
  divided by the total and multiplied by 100, rounded to two decimal places, when the
  total is positive. When the total is positive the percentages sum to 100 within
  half a hundredth for each entry; when the total is 0 (or negative) every
  percentage is 0.
\<close>

theorem portfolio_allocation_percentages:
  "let r = get_portfolio_allocation s customer_id;
       invs = filter (\<lambda>i. i_customer i = customer_id) (investments s);
       groups = group_current_value invs
   in total_value r = sum_list (map i_current_value invs) \<and>
      (0 < total_value r \<longrightarrow>
         \<bar>sum_list (map a_percentage (allocation r)) - 100\<bar>
           \<le> of_nat (length (allocation r)) / 200) \<and>
      (total_value r \<le> 0 \<longrightarrow> (\<forall>e \<in> set (allocation r). a_percentage e = 0)) \<and>
      distinct (map fst groups) \<and> set (map fst groups) = i_product_type ` set invs \<and>
      list_all2
        (\<lambda>e p. a_product_type e = display_name p \<and>
               a_value e = sum_list (map i_current_value (filter (\<lambda>i. i_product_type i = p) invs)) \<and>
               a_percentage e =
                 (if 0 < total_value r then round2 (a_value e / total_value r * 100) else 0))
        (allocation r) (map fst groups)"
proof -
  define invs where "invs = filter (\<lambda>i. i_customer i = customer_id) (investments s)"
  define groups where "groups = group_current_value invs"
  define total where "total = sum_list (map snd groups)"
  define r where "r = get_portfolio_allocation s customer_id"
  have tv: "total_value r = total"
    and al: "allocation r =
               map (\<lambda>item. \<lparr>a_product_type = display_name (fst item), a_value = snd item,
                              a_percentage = (if 0 < total then round2 (snd item / total * 100) else 0)\<rparr>)
                 groups"
    by (simp_all add: r_def get_portfolio_allocation_def Let_def total_def groups_def invs_def)
  have t: "total = sum_list (map i_current_value invs)"
    unfolding total_def groups_def by (rule group_current_value_sum)
  have pos: "\<bar>sum_list (map a_percentage (allocation r)) - 100\<bar>
               \<le> of_nat (length (allocation r)) / 200" if "0 < total"
  proof -
    have "map a_percentage (allocation r) = map (\<lambda>item. round2 (snd item / total * 100)) groups"
      using that by (simp add: al comp_def)
    moreover have "sum_list (map (\<lambda>item. snd item / total * 100) groups) = 100"
    proof -
      have "sum_list (map (\<lambda>item. snd item / total * 100) groups)
              = sum_list (map snd groups) / total * 100"
        by (rule sum_list_share)
      also have "\<dots> = 100"
        using that by (simp add: total_def)
      finally show ?thesis .
    qed
    moreover have "length (allocation r) = length groups"
      by (simp add: al)
    ultimately show ?thesis
      using sum_list_round2_error [of "\<lambda>item. snd item / total * 100" groups] by simp
  qed
  have zero: "\<forall>e \<in> set (allocation r). a_percentage e = 0" if "total \<le> 0"
    using that by (auto simp: al)
  have d: "distinct (map fst groups)"
    unfolding groups_def by (rule group_current_value_distinct)
  have k: "set (map fst groups) = i_product_type ` set invs"
    unfolding groups_def by (rule group_current_value_keys)
  have "list_all2
        (\<lambda>e p. a_product_type e = display_name p \<and>
               a_value e = sum_list (map i_current_value (filter (\<lambda>i. i_product_type i = p) invs)) \<and>
               a_percentage e = (if 0 < total then round2 (a_value e / total * 100) else 0))
        (allocation r) (map fst groups)"
  proof -
    have "snd item = sum_list (map i_current_value (filter (\<lambda>i. i_product_type i = fst item) invs))"
      if "item \<in> set groups" for item
      using that group_current_value_entry [of "fst item" "snd item" invs]
      by (simp add: groups_def)
    then show ?thesis
      by (simp add: al list_all2_map1 list_all2_map2 list_all2_same)
  qed
  then have entries: "list_all2
        (\<lambda>e p. a_product_type e = display_name p \<and>
               a_value e = sum_list (map i_current_value (filter (\<lambda>i. i_product_type i = p) invs)) \<and>
               a_percentage e =
                 (if 0 < total_value r then round2 (a_value e / total_value r * 100) else 0))
        (allocation r) (map fst groups)"
    unfolding tv .
  have "total_value r = sum_list (map i_current_value invs)"
    using tv t by simp
  moreover have "0 < total_value r \<longrightarrow>
      \<bar>sum_list (map a_percentage (allocation r)) - 100\<bar> \<le> of_nat (length (allocation r)) / 200"
    using pos tv by simp
  moreover have "total_value r \<le> 0 \<longrightarrow> (\<forall>e \<in> set (allocation r). a_percentage e = 0)"
    using zero tv by simp
  ultimately show ?thesis
    unfolding Let_def r_def [symmetric] invs_def [symmetric] groups_def [symmetric]
    using d k entries by blast
qed

theorem portfolio_allocation_percentages_witness:
  "total_value (get_portfolio_allocation (example_store [] three_holdings) ''C1'') = 300 \<and>
   map a_percentage (allocation (get_portfolio_allocation (example_store [] three_holdings) ''C1''))
     = [6667 / 100, 3333 / 100] \<and>
   \<bar>sum_list (map a_percentage
        (allocation (get_portfolio_allocation (example_store [] three_holdings) ''C1''))) - 100\<bar>
     \<le> 2 / 200"
proof -
  have pos: "0 < total_value (get_portfolio_allocation (example_store [] three_holdings) ''C1'')"
    by (simp add: three_holdings_allocation)
  have "\<bar>sum_list (map a_percentage
        (allocation (get_portfolio_allocation (example_store [] three_holdings) ''C1''))) - 100\<bar>
     \<le> of_nat (length (allocation (get_portfolio_allocation (example_store [] three_holdings) ''C1''))) / 200"
    using portfolio_allocation_percentages [of "example_store [] three_holdings" "''C1''"] pos
    by (simp add: Let_def)
  then show ?thesis
    by (simp add: three_holdings_allocation)
qed

section \<open>The intent classifier\<close>

lemma to_lower_not_upper: "\<not> isupper (to_lower c)"
  by (simp add: isupper_def to_lower_def ascii_uppercase_def ascii_lowercase_def)

lemma isspace_to_lower: "isspace (to_lower c) = isspace c"
  by (simp add: isspace_def to_lower_def ascii_uppercase_def ascii_lowercase_def)

lemma strip_hd: "strip s \<noteq> [] \<Longrightarrow> \<not> isspace (hd (strip s))"
proof -
  assume ne: "strip s \<noteq> []"
  let ?t = "dropWhile isspace s"
  have "strip s = []" if "?t = []"
    unfolding strip_def that by simp
  with ne have t: "?t \<noteq> []" by blast
  then have h: "\<not> isspace (hd ?t)" by (rule hd_dropWhile)
  have "strip s = rev (dropWhile isspace (rev ?t))" by (simp add: strip_def)
  moreover have "hd (rev (dropWhile isspace (rev ?t))) = hd ?t"
  proof -
    obtain x xs where x: "?t = x # xs" using t by (cases ?t) auto
    then have nx: "\<not> isspace x" using h by simp
    have "dropWhile isspace (rev xs @ [x]) = dropWhile isspace (rev xs) @ [x]"
      using nx by (simp add: dropWhile_append)
    then show ?thesis using x by simp
  qed
  ultimately show ?thesis using h by simp
qed

lemma strip_last: "strip s \<noteq> [] \<Longrightarrow> \<not> isspace (last (strip s))"
proof -
  assume ne: "strip s \<noteq> []"
  let ?u = "dropWhile isspace (rev (dropWhile isspace s))"
  have u: "?u \<noteq> []" using ne by (simp add: strip_def)
  then have "\<not> isspace (hd ?u)" by (rule hd_dropWhile)
  moreover have "last (strip s) = hd ?u"
    using u by (simp add: strip_def last_rev)
  ultimately show ?thesis by simp
qed

text \<open>
  C8, as the code has it. \<^verbatim>\<open>classify_intent\<close> always returns a string and raises
  nothing: \<open>general_query\<close> when the call of the service raises or answers with no
  parts, and otherwise the text of the answer, stripped and lowered, whatever it is. The
  result is then one of the five intents exactly when that stripped and lowered text is
  one of them. In every case the result has no upper-case letter and neither begins nor
  ends with white space.
\<close>

theorem classify_intent_result:
  "(classify_call gemini query = No_parts \<longrightarrow> classify_intent gemini query = ''general_query'') \<and>
   (\<forall>e. classify_call gemini query = Raises e \<longrightarrow> classify_intent gemini query = ''general_query'') \<and>
   (\<forall>t. classify_call gemini query = Text t \<longrightarrow>
        classify_intent gemini query = lower (strip t) \<and>
        (classify_intent gemini query \<in> set intents \<longleftrightarrow> lower (strip t) \<in> set intents)) \<and>
   (\<forall>c \<in> set (classify_intent gemini query). \<not> isupper c) \<and>
   (classify_intent gemini query \<noteq> [] \<longrightarrow>
      \<not> isspace (hd (classify_intent gemini query)) \<and>
      \<not> isspace (last (classify_intent gemini query)))"
proof -
  have up: "\<forall>c \<in> set (classify_intent gemini query). \<not> isupper c"
  proof (cases "classify_call gemini query")
    case (Text t)
    then show ?thesis by (auto simp: classify_intent_def lower_def to_lower_not_upper)
  qed (simp_all add: classify_intent_def isupper_def ascii_uppercase_def)
  have sp: "\<not> isspace (hd (classify_intent gemini query)) \<and>
            \<not> isspace (last (classify_intent gemini query))"
    if "classify_intent gemini query \<noteq> []"
  proof (cases "classify_call gemini query")
    case (Text t)
    with that have ne: "strip t \<noteq> []" by (simp add: classify_intent_def lower_def)
    then show ?thesis
      using Text strip_hd [OF ne] strip_last [OF ne]
      by (simp add: classify_intent_def lower_def hd_map last_map isspace_to_lower)
  qed (simp_all add: classify_intent_def isspace_def)
  show ?thesis
    using up sp by (auto simp: classify_intent_def)
qed

theorem classify_intent_result_witness:
  "classify_intent shouting_service ''How much did I spend?'' = ''transaction_analysis'' \<and>
   classify_intent shouting_service ''How much did I spend?'' \<in> set intents"
proof -
  have c: "classify_call shouting_service ''How much did I spend?'' = Text '' Transaction_Analysis ''"
    by (simp add: shouting_service_def)
  have l: "lower (strip '' Transaction_Analysis '') = ''transaction_analysis''"
    by code_simp
  from classify_intent_result [of shouting_service "''How much did I spend?''"] c
  have "classify_intent shouting_service ''How much did I spend?'' = lower (strip '' Transaction_Analysis '')"
    by blast
  then show ?thesis by (simp add: l intents_def)
qed

text \<open>
  C8 as stated fails: when the service answers the classification with the sentence
  \<open>I think this is about Spending.\<close>, the result is that sentence lowered, which is
  none of the five intents.
\<close>

theorem classify_intent_free_text_counterexample:
  "classify_intent chatty_service ''How much did I spend?'' = ''i think this is about spending.'' \<and>
   classify_intent chatty_service ''How much did I spend?'' \<notin> set intents"
  by code_simp

section \<open>The chat endpoint\<close>

lemma get_customer_SomeD:
  "get_customer s customer_id = Some customer \<Longrightarrow> c_customer_id customer = customer_id"
  by (auto simp: get_customer_def find_Some_iff)

lemma get_customer_context_Some:
  "get_customer s customer_id = Some customer \<Longrightarrow>
   \<exists>ctx. get_customer_context s today customer_id = Some ctx"
  by (simp add: get_customer_context_def Let_def)

lemma create_new_conversation_fresh:
  assumes "uuid \<notin> set (map cc_conversation_id (conversations s))"
  shows "create_new_conversation uuid customer s =
           Inr (\<lparr>cc_conversation_id = uuid, cc_customer = c_customer_id customer, cc_is_active = True\<rparr>,
                s\<lparr>conversations := conversations s @
                     [\<lparr>cc_conversation_id = uuid, cc_customer = c_customer_id customer,
                       cc_is_active = True\<rparr>]\<rparr>)"
  using assms by (simp add: create_new_conversation_def Let_def)

lemma create_new_conversation_taken:
  assumes "uuid \<in> set (map cc_conversation_id (conversations s))"
  shows "create_new_conversation uuid customer s =
           Inl (IntegrityError ''UNIQUE constraint failed: chat_conversations.conversation_id'')"
  using assms by (simp add: create_new_conversation_def)

lemma get_or_create_conversation_customers:
  "get_or_create_conversation uuid conversation_id customer s = Inr (conversation, s1) \<Longrightarrow>
   customers s1 = customers s \<and> transactions s1 = transactions s \<and>
   investments s1 = investments s \<and> messages s1 = messages s \<and>
   uploaded_files s1 = uploaded_files s"
  by (auto simp: get_or_create_conversation_def create_new_conversation_def Let_def
           split: option.splits if_splits)

lemma find_unique_key:
  assumes "distinct (map f xs)" and "find (\<lambda>c. f c = k) xs = Some other"
    and "c \<in> set xs" and "f c = k"
  shows "c = other"
proof -
  have "other \<in> set xs" and "f other = k"
    using assms(2) by (auto simp: find_Some_iff)
  moreover have "inj_on f (set xs)"
    using assms(1) by (simp add: distinct_map)
  ultimately show ?thesis
    using assms(3,4) by (auto dest: inj_onD)
qed

lemma get_conversation_foreign:
  assumes "distinct (map cc_conversation_id (conversations s))"
    and "find (\<lambda>c. cc_conversation_id c = key) (conversations s) = Some other"
    and "cc_customer other \<noteq> c_customer_id customer"
  shows "get_conversation s key customer = None"
proof -
  have "\<not> (cc_conversation_id c = key \<and> cc_customer c = c_customer_id customer)"
    if "c \<in> set (conversations s)" for c
    using find_unique_key [OF assms(1,2) that] assms(3) by auto
  then show ?thesis
    by (simp add: get_conversation_def find_None_iff)
qed

text \<open>The run of \<^const>\<open>post\<close> once the customer and the conversation are there.\<close>

lemma post_resolved:
  assumes c: "get_customer s customer_id = Some customer"
    and g: "get_or_create_conversation (env_uuid4 env) conversation_id customer s
              = Inr (conversation, s1)"
  shows "\<exists>ctx history.
           post env (Valid customer_id user_message conversation_id) s =
             (Inr (Response
                (Chat_reply (cc_conversation_id conversation)
                   (response (generate_response (env_gemini env) user_message ctx history
                                (previous_thought_of history)))
                   (classify_intent (env_gemini env) user_message)
                   (generate_follow_up_suggestions (env_sample env)
                      (classify_intent (env_gemini env) user_message))
                   (length (ctx_transactions ctx)) (length (ctx_investments ctx)))
                200),
              s1\<lparr>messages := messages s1 @
                   [\<lparr>m_conversation = cc_conversation_id conversation, m_role = ''user'',
                     m_content = user_message, m_intent = None, m_data_sources = [],
                     m_thought_signature = None\<rparr>,
                    \<lparr>m_conversation = cc_conversation_id conversation, m_role = ''assistant'',
                     m_content = response (generate_response (env_gemini env) user_message ctx
                                   history (previous_thought_of history)),
                     m_intent = Some (classify_intent (env_gemini env) user_message),
                     m_data_sources = [''transactions'', ''investments'', ''customer_profile''],
                     m_thought_signature =
                       thought_signature (generate_response (env_gemini env) user_message ctx
                                            history (previous_thought_of history))\<rparr>]\<rparr>)"
proof -
  let ?s2 = "create_message
               \<lparr>m_conversation = cc_conversation_id conversation, m_role = ''user'',
                m_content = user_message, m_intent = None, m_data_sources = [],
                m_thought_signature = None\<rparr> s1"
  have "customers ?s2 = customers s"
    using get_or_create_conversation_customers [OF g] by (simp add: create_message_def)
  then have "get_customer ?s2 customer_id = Some customer"
    using c by (simp add: get_customer_def)
  then obtain ctx where ctx: "get_customer_context ?s2 (env_today env) customer_id = Some ctx"
    using get_customer_context_Some by blast
  show ?thesis
    apply (rule exI [of _ ctx])
    apply (rule exI [of _ "get_conversation_history ?s2 conversation"])
    using c g ctx
    apply (simp add: post_def Let_def)
    apply (simp add: create_message_def)
    done
qed

lemma generate_response_failure:
  assumes "\<And>request. generate_call gemini request = reply" and "\<forall>t. reply \<noteq> Text t"
  shows "response (generate_response gemini user_query ctx history previous) =
           (if reply = No_parts then no_parts_message else glitch_message)"
    and "thought_signature (generate_response gemini user_query ctx history previous) = None"
  using assms by (cases reply; simp add: generate_response_def Let_def)+

text \<open>
  C5. A valid chat request of a stored customer supplies a conversation key, and the
  conversation with that key (keys are unique in the store) belongs to another
  customer. Then the request never reuses that conversation, and one of two things
  happens. Either \<^verbatim>\<open>uuid.uuid4()\<close> gives a key that a conversation already has: the
  store refuses the new row, the exception leaves the handler and the store is
  unchanged. Or the request answers with status 200 under the key that
  \<^verbatim>\<open>uuid.uuid4()\<close> gives, and that key is fresh: no conversation of the store had it,
  it differs from the supplied key, and the keys of the store stay unique. In that case
  the store gains exactly one conversation, with the new key and owned by the request's
  customer; the two messages of the request go to the new conversation, and the
  messages of the conversation with the supplied key are as before.
\<close>

theorem post_foreign_conversation:
  assumes "get_customer s customer_id = Some customer"
    and "find (\<lambda>c. cc_conversation_id c = key) (conversations s) = Some other"
    and "cc_customer other \<noteq> customer_id"
    and "distinct (map cc_conversation_id (conversations s))"
  shows "(env_uuid4 env \<in> set (map cc_conversation_id (conversations s)) \<and>
          post env (Valid customer_id user_message (Some key)) s =
            (Inl (IntegrityError ''UNIQUE constraint failed: chat_conversations.conversation_id''),
             s))
         \<or>
         (\<exists>text intent suggestions n m s'.
            post env (Valid customer_id user_message (Some key)) s =
              (Inr (Response (Chat_reply (env_uuid4 env) text intent suggestions n m) 200), s') \<and>
            env_uuid4 env \<notin> set (map cc_conversation_id (conversations s)) \<and>
            env_uuid4 env \<noteq> key \<and>
            conversations s' = conversations s @
              [\<lparr>cc_conversation_id = env_uuid4 env, cc_customer = customer_id,
                cc_is_active = True\<rparr>] \<and>
            distinct (map cc_conversation_id (conversations s')) \<and>
            filter (\<lambda>msg. m_conversation msg = key) (messages s')
              = filter (\<lambda>msg. m_conversation msg = key) (messages s) \<and>
            map m_conversation (drop (length (messages s)) (messages s'))
              = [env_uuid4 env, env_uuid4 env])"
proof (cases "env_uuid4 env \<in> set (map cc_conversation_id (conversations s))")
  case True
  have cid: "c_customer_id customer = customer_id"
    by (rule get_customer_SomeD [OF assms(1)])
  have "get_conversation s key customer = None"
    using get_conversation_foreign [OF assms(4,2)] assms(3) cid by simp
  then have "get_or_create_conversation (env_uuid4 env) (Some key) customer s =
               Inl (IntegrityError ''UNIQUE constraint failed: chat_conversations.conversation_id'')"
    using create_new_conversation_taken [OF True]
    by (simp add: get_or_create_conversation_def)
  then have "post env (Valid customer_id user_message (Some key)) s =
            (Inl (IntegrityError ''UNIQUE constraint failed: chat_conversations.conversation_id''),
             s)"
    using assms(1) by (simp add: post_def)
  with True show ?thesis by blast
next
  case False
  let ?new = "\<lparr>cc_conversation_id = env_uuid4 env, cc_customer = c_customer_id customer,
               cc_is_active = True\<rparr>"
  let ?s1 = "s\<lparr>conversations := conversations s @ [?new]\<rparr>"
  have cid: "c_customer_id customer = customer_id"
    by (rule get_customer_SomeD [OF assms(1)])
  have "other \<in> set (conversations s)" and "cc_conversation_id other = key"
    using assms(2) by (auto simp: find_Some_iff)
  then have neq: "env_uuid4 env \<noteq> key"
    using False by auto
  have d: "distinct (map cc_conversation_id (conversations s @ [?new]))"
    using assms(4) False by simp
  have "get_conversation s key customer = None"
    using get_conversation_foreign [OF assms(4,2)] assms(3) cid by simp
  then have g: "get_or_create_conversation (env_uuid4 env) (Some key) customer s = Inr (?new, ?s1)"
    using create_new_conversation_fresh [OF False]
    by (simp add: get_or_create_conversation_def)
  from post_resolved [OF assms(1) g, of user_message]
  obtain ctx history where
    p: "post env (Valid customer_id user_message (Some key)) s =
             (Inr (Response
                (Chat_reply (cc_conversation_id ?new)
                   (response (generate_response (env_gemini env) user_message ctx history
                                (previous_thought_of history)))
                   (classify_intent (env_gemini env) user_message)
                   (generate_follow_up_suggestions (env_sample env)
                      (classify_intent (env_gemini env) user_message))
                   (length (ctx_transactions ctx)) (length (ctx_investments ctx)))
                200),
              ?s1\<lparr>messages := messages ?s1 @
                   [\<lparr>m_conversation = cc_conversation_id ?new, m_role = ''user'',
                     m_content = user_message, m_intent = None, m_data_sources = [],
                     m_thought_signature = None\<rparr>,
                    \<lparr>m_conversation = cc_conversation_id ?new, m_role = ''assistant'',
                     m_content = response (generate_response (env_gemini env) user_message ctx
                                   history (previous_thought_of history)),
                     m_intent = Some (classify_intent (env_gemini env) user_message),
                     m_data_sources = [''transactions'', ''investments'', ''customer_profile''],
                     m_thought_signature =
                       thought_signature (generate_response (env_gemini env) user_message ctx
                                            history (previous_thought_of history))\<rparr>]\<rparr>)"
    by blast
  have "\<exists>text intent suggestions n m s'.
            post env (Valid customer_id user_message (Some key)) s =
              (Inr (Response (Chat_reply (env_uuid4 env) text intent suggestions n m) 200), s') \<and>
            env_uuid4 env \<notin> set (map cc_conversation_id (conversations s)) \<and>
            env_uuid4 env \<noteq> key \<and>
            conversations s' = conversations s @
              [\<lparr>cc_conversation_id = env_uuid4 env, cc_customer = customer_id,
                cc_is_active = True\<rparr>] \<and>
            distinct (map cc_conversation_id (conversations s')) \<and>
            filter (\<lambda>msg. m_conversation msg = key) (messages s')
              = filter (\<lambda>msg. m_conversation msg = key) (messages s) \<and>
            map m_conversation (drop (length (messages s)) (messages s'))
              = [env_uuid4 env, env_uuid4 env]"
    using neq cid d False by (simp add: p)
  then show ?thesis by blast
qed

theorem post_foreign_conversation_witness:
  "fst (post example_environment (Valid ''C1'' ''Hi'' (Some ''uuid-1'')) shared_store) =
     Inr (Response
            (Chat_reply ''uuid-2'' glitch_message ''summary''
               [''Give me a detailed financial health report.'',
                ''What are the top 3 insights from my data?'',
                ''Summarize my financial situation in one paragraph.''] 0 0) 200) \<and>
   conversations (snd (post example_environment (Valid ''C1'' ''Hi'' (Some ''uuid-1'')) shared_store)) =
     [\<lparr>cc_conversation_id = ''uuid-1'', cc_customer = ''C2'', cc_is_active = True\<rparr>,
      \<lparr>cc_conversation_id = ''uuid-2'', cc_customer = ''C1'', cc_is_active = True\<rparr>] \<and>
   post colliding_environment (Valid ''C1'' ''Hi'' (Some ''uuid-1'')) shared_store =
     (Inl (IntegrityError ''UNIQUE constraint failed: chat_conversations.conversation_id''),
      shared_store)"
proof -
  have 1: "get_customer shared_store ''C1'' = Some example_customer"
    by code_simp
  have 2: "find (\<lambda>c. cc_conversation_id c = ''uuid-1'') (conversations shared_store) =
             Some \<lparr>cc_conversation_id = ''uuid-1'', cc_customer = ''C2'', cc_is_active = True\<rparr>"
    by (simp add: shared_store_def)
  have 3: "cc_customer \<lparr>cc_conversation_id = ''uuid-1'', cc_customer = ''C2'', cc_is_active = True\<rparr>
             \<noteq> ''C1''"
    by simp
  have 4: "distinct (map cc_conversation_id (conversations shared_store))"
    by (simp add: shared_store_def)
  have 5: "env_uuid4 example_environment
             \<notin> set (map cc_conversation_id (conversations shared_store))"
    by (simp add: shared_store_def example_environment_def)
  from post_foreign_conversation [OF 1 2 3 4, of example_environment "''Hi''"] 5
  have "conversations (snd (post example_environment (Valid ''C1'' ''Hi'' (Some ''uuid-1'')) shared_store))
          = conversations shared_store @
             [\<lparr>cc_conversation_id = env_uuid4 example_environment, cc_customer = ''C1'',
               cc_is_active = True\<rparr>]"
    by auto
  moreover have "fst (post example_environment (Valid ''C1'' ''Hi'' (Some ''uuid-1'')) shared_store) =
     Inr (Response
            (Chat_reply ''uuid-2'' glitch_message ''summary''
               [''Give me a detailed financial health report.'',
                ''What are the top 3 insights from my data?'',
                ''Summarize my financial situation in one paragraph.''] 0 0) 200)"
    by code_simp
  moreover have "post colliding_environment (Valid ''C1'' ''Hi'' (Some ''uuid-1'')) shared_store =
     (Inl (IntegrityError ''UNIQUE constraint failed: chat_conversations.conversation_id''),
      shared_store)"
  proof -
    have "env_uuid4 colliding_environment
            \<in> set (map cc_conversation_id (conversations shared_store))"
      by (simp add: shared_store_def colliding_environment_def)
    with post_foreign_conversation [OF 1 2 3 4, of colliding_environment "''Hi''"]
    show ?thesis by blast
  qed
  ultimately show ?thesis
    by (simp add: shared_store_def example_environment_def)
qed

text \<open>
  C6. A valid chat request whose \<^verbatim>\<open>customer_id\<close> matches no stored customer is answered
  with status 404 and \<open>Customer not found\<close>, and the store is unchanged: no
  conversation and no message is created.
\<close>

theorem post_unknown_customer:
  assumes "get_customer s customer_id = None"
  shows "post env (Valid customer_id user_message conversation_id) s =
           (Inr (Response (Error_message ''Customer not found'') 404), s)"
  using assms by (simp add: post_def)

theorem post_unknown_customer_witness:
  "get_customer shared_store ''C9'' = None \<and>
   post example_environment (Valid ''C9'' ''Hi'' None) shared_store =
     (Inr (Response (Error_message ''Customer not found'') 404), shared_store)"
proof -
  have n: "get_customer shared_store ''C9'' = None"
    by code_simp
  from post_unknown_customer [OF n] n show ?thesis by simp
qed

text \<open>
  C7. A valid chat request of a stored customer has its conversation resolved (reused or
  created). If the generation call raises or answers with no parts, the endpoint
  answers with status 200 and as response text the fixed message of that failure (the
  glitch message when the call raises, the other message when the answer has no parts);
  the store gains the user message and then an assistant message with that same text,
  both in the conversation of the request.
\<close>

theorem post_generation_failure:
  assumes "get_customer s customer_id = Some customer"
    and "get_or_create_conversation (env_uuid4 env) conversation_id customer s
           = Inr (conversation, s1)"
    and "\<And>request. generate_call (env_gemini env) request = reply"
    and "\<forall>t. reply \<noteq> Text t"
  shows "\<exists>intent suggestions n m.
           post env (Valid customer_id user_message conversation_id) s =
             (Inr (Response
                     (Chat_reply (cc_conversation_id conversation)
                        (if reply = No_parts then no_parts_message else glitch_message)
                        intent suggestions n m)
                     200),
              s1\<lparr>messages := messages s @
                   [\<lparr>m_conversation = cc_conversation_id conversation, m_role = ''user'',
                     m_content = user_message, m_intent = None, m_data_sources = [],
                     m_thought_signature = None\<rparr>,
                    \<lparr>m_conversation = cc_conversation_id conversation, m_role = ''assistant'',
                     m_content =
                       (if reply = No_parts then no_parts_message else glitch_message),
                     m_intent = Some intent,
                     m_data_sources = [''transactions'', ''investments'', ''customer_profile''],
                     m_thought_signature = None\<rparr>]\<rparr>)"
proof -
  have m: "messages s1 = messages s"
    using get_or_create_conversation_customers [OF assms(2)] by simp
  from post_resolved [OF assms(1,2), of user_message]
  obtain ctx history where
    p: "post env (Valid customer_id user_message conversation_id) s =
             (Inr (Response
                (Chat_reply (cc_conversation_id conversation)
                   (response (generate_response (env_gemini env) user_message ctx history
                                (previous_thought_of history)))
                   (classify_intent (env_gemini env) user_message)
                   (generate_follow_up_suggestions (env_sample env)
                      (classify_intent (env_gemini env) user_message))
                   (length (ctx_transactions ctx)) (length (ctx_investments ctx)))
                200),
              s1\<lparr>messages := messages s1 @
                   [\<lparr>m_conversation = cc_conversation_id conversation, m_role = ''user'',
                     m_content = user_message, m_intent = None, m_data_sources = [],
                     m_thought_signature = None\<rparr>,
                    \<lparr>m_conversation = cc_conversation_id conversation, m_role = ''assistant'',
                     m_content = response (generate_response (env_gemini env) user_message ctx
                                   history (previous_thought_of history)),
                     m_intent = Some (classify_intent (env_gemini env) user_message),
                     m_data_sources = [''transactions'', ''investments'', ''customer_profile''],
                     m_thought_signature =
                       thought_signature (generate_response (env_gemini env) user_message ctx
                                            history (previous_thought_of history))\<rparr>]\<rparr>)"
    by blast
  show ?thesis
    unfolding p generate_response_failure [of "env_gemini env" reply, OF assms(3,4)] m
    by blast
qed

theorem post_generation_failure_witness:
  "post example_environment (Valid ''C1'' ''Hi'' None) (example_store [] []) =
     (Inr (Response
             (Chat_reply ''uuid-2'' glitch_message ''summary''
                [''Give me a detailed financial health report.'',
                 ''What are the top 3 insights from my data?'',
                 ''Summarize my financial situation in one paragraph.''] 0 0) 200),
      (example_store [] [])
        \<lparr>conversations := [\<lparr>cc_conversation_id = ''uuid-2'', cc_customer = ''C1'', cc_is_active = True\<rparr>],
         messages :=
           [\<lparr>m_conversation = ''uuid-2'', m_role = ''user'', m_content = ''Hi'', m_intent = None,
             m_data_sources = [], m_thought_signature = None\<rparr>,
            \<lparr>m_conversation = ''uuid-2'', m_role = ''assistant'', m_content = glitch_message,
             m_intent = Some ''summary'',
             m_data_sources = [''transactions'', ''investments'', ''customer_profile''],
             m_thought_signature = None\<rparr>]\<rparr>)"
proof -
  let ?conv = "\<lparr>cc_conversation_id = ''uuid-2'', cc_customer = ''C1'', cc_is_active = True\<rparr>"
  have 1: "get_customer (example_store [] []) ''C1'' = Some example_customer"
    by code_simp
  have 2: "get_or_create_conversation (env_uuid4 example_environment) None example_customer
             (example_store [] [])
           = Inr (?conv, (example_store [] [])\<lparr>conversations := [?conv]\<rparr>)"
    by (simp add: get_or_create_conversation_def create_new_conversation_def example_store_def
          example_environment_def example_customer_def Let_def)
  have 3: "\<And>request. generate_call (env_gemini example_environment) request
             = Raises ''503 service unavailable''"
    by (simp add: example_environment_def failing_service_def)
  have 4: "\<forall>t. Raises ''503 service unavailable'' \<noteq> Text t"
    by simp
  from post_generation_failure [OF 1 2 3 4, of "''Hi''"]
  obtain intent suggestions n m where
    p: "post example_environment (Valid ''C1'' ''Hi'' None) (example_store [] []) =
          (Inr (Response (Chat_reply ''uuid-2'' glitch_message intent suggestions n m) 200),
           (example_store [] [])
             \<lparr>conversations := [?conv],
              messages := messages (example_store [] []) @
                [\<lparr>m_conversation = ''uuid-2'', m_role = ''user'', m_content = ''Hi'', m_intent = None,
                  m_data_sources = [], m_thought_signature = None\<rparr>,
                 \<lparr>m_conversation = ''uuid-2'', m_role = ''assistant'', m_content = glitch_message,
                  m_intent = Some intent,
                  m_data_sources = [''transactions'', ''investments'', ''customer_profile''],
                  m_thought_signature = None\<rparr>]\<rparr>)"
    by auto
  have f: "fst (post example_environment (Valid ''C1'' ''Hi'' None) (example_store [] [])) =
     Inr (Response
             (Chat_reply ''uuid-2'' glitch_message ''summary''
                [''Give me a detailed financial health report.'',
                 ''What are the top 3 insights from my data?'',
                 ''Summarize my financial situation in one paragraph.''] 0 0) 200)"
    by code_simp
  from f p have "intent = ''summary''"
    and "suggestions = [''Give me a detailed financial health report.'',
                 ''What are the top 3 insights from my data?'',
                 ''Summarize my financial situation in one paragraph.'']" and "n = 0" and "m = 0"
    by simp_all
  with p show ?thesis
    by (simp add: example_store_def)
qed

section \<open>The bulk import and the upload endpoint\<close>

lemma find_append_Some: "find P xs = Some x \<Longrightarrow> find P (xs @ ys) = Some x"
  by (induction xs) (auto split: if_splits)

lemma find_key_Some:
  "k \<in> f ` set xs \<Longrightarrow> \<exists>x. find (\<lambda>x. f x = k) xs = Some x"
  by (cases "find (\<lambda>x. f x = k) xs") (auto simp: find_None_iff)

subsection \<open>Transactions\<close>

lemma transaction_of_row_id:
  assumes "transaction_of_row customer row = Inr t"
  shows "col_transaction_id row = Some (t_transaction_id t)"
    and "transaction_of_row customer2 row = Inr (t\<lparr>t_customer := c_customer_id customer2\<rparr>)"
  using assms
  by (auto simp: transaction_of_row_def and_then_def row_item_def split: option.splits)

lemma get_or_create_transaction_present:
  "t_transaction_id t \<in> t_transaction_id ` set (transactions s) \<Longrightarrow>
   get_or_create_transaction t s = s"
  using find_key_Some [of "t_transaction_id t" t_transaction_id "transactions s"]
  by (auto simp: get_or_create_transaction_def)

lemma get_or_create_transaction_append:
  "\<exists>new. get_or_create_transaction t s = s\<lparr>transactions := transactions s @ new\<rparr> \<and>
         t_transaction_id t \<in> t_transaction_id ` set (transactions s @ new)"
proof (cases "find (\<lambda>x. t_transaction_id x = t_transaction_id t) (transactions s)")
  case None
  then show ?thesis
    by (intro exI [of _ "[t]"]) (simp add: get_or_create_transaction_def)
next
  case (Some x)
  then have "x \<in> set (transactions s)" and "t_transaction_id x = t_transaction_id t"
    by (auto simp: find_Some_iff)
  then have "t_transaction_id t \<in> t_transaction_id ` set (transactions s)"
    by (metis image_eqI)
  with Some show ?thesis
    by (intro exI [of _ "[]"]) (simp add: get_or_create_transaction_def)
qed

lemma import_transactions_result:
  assumes "import_transactions customer rows n s = (Inr m, s')"
  shows "m = n + length rows \<and>
         (\<exists>new. s' = s\<lparr>transactions := transactions s @ new\<rparr>) \<and>
         (\<forall>row \<in> set rows. \<exists>k. col_transaction_id row = Some k \<and>
                                 k \<in> t_transaction_id ` set (transactions s'))"
  using assms
proof (induction rows arbitrary: n s)
  case Nil
  then show ?case by (auto intro: exI [of _ "[]"])
next
  case (Cons row rows)
  from Cons.prems obtain t where t: "transaction_of_row customer row = Inr t"
    and r: "import_transactions customer rows (n + 1) (get_or_create_transaction t s) = (Inr m, s')"
    by (auto split: sum.splits)
  obtain new where g: "get_or_create_transaction t s = s\<lparr>transactions := transactions s @ new\<rparr>"
    and k: "t_transaction_id t \<in> t_transaction_id ` set (transactions s @ new)"
    using get_or_create_transaction_append by blast
  from Cons.IH [OF r] obtain new' where
    m: "m = n + 1 + length rows"
    and s': "s' = (get_or_create_transaction t s)
                    \<lparr>transactions := transactions (get_or_create_transaction t s) @ new'\<rparr>"
    and ks: "\<forall>row \<in> set rows. \<exists>k. col_transaction_id row = Some k \<and>
                                 k \<in> t_transaction_id ` set (transactions s')"
    by blast
  have e: "s' = s\<lparr>transactions := transactions s @ (new @ new')\<rparr>"
    using s' g by simp
  then have "t_transaction_id t \<in> t_transaction_id ` set (transactions s')"
    using k by auto
  then have "\<exists>k. col_transaction_id row = Some k \<and> k \<in> t_transaction_id ` set (transactions s')"
    using transaction_of_row_id(1) [OF t] by simp
  with m e ks show ?case by auto
qed

lemma import_transactions_present:
  assumes "\<forall>row \<in> set rows. \<exists>t. transaction_of_row customer row = Inr t \<and>
             t_transaction_id t \<in> t_transaction_id ` set (transactions s)"
  shows "import_transactions customer rows n s = (Inr (n + length rows), s)"
  using assms
proof (induction rows arbitrary: n)
  case Nil
  then show ?case by simp
next
  case (Cons row rows)
  then obtain t where "transaction_of_row customer row = Inr t"
    and "t_transaction_id t \<in> t_transaction_id ` set (transactions s)"
    by auto
  then show ?case
    using Cons by (simp add: get_or_create_transaction_present)
qed

lemma import_transactions_again:
  assumes "import_transactions customer rows n s = (Inr m, s')"
  shows "import_transactions customer2 rows n2 s' = (Inr (n2 + length rows), s')"
proof (rule import_transactions_present, rule ballI)
  fix row assume row: "row \<in> set rows"
  have ok: "\<exists>t. transaction_of_row customer row = Inr t" if "row \<in> set rows" for row
    using assms that
  proof (induction rows arbitrary: n s)
    case Nil
    then show ?case by simp
  next
    case (Cons a rows)
    then show ?case by (auto split: sum.splits)
  qed
  then obtain t where t: "transaction_of_row customer row = Inr t"
    using row by blast
  obtain k where "col_transaction_id row = Some k"
    and "k \<in> t_transaction_id ` set (transactions s')"
    using import_transactions_result [OF assms] row by blast
  then show "\<exists>t. transaction_of_row customer2 row = Inr t \<and>
               t_transaction_id t \<in> t_transaction_id ` set (transactions s')"
    using transaction_of_row_id(1) [OF t] transaction_of_row_id(2) [OF t, of customer2] by auto
qed

subsection \<open>Investments\<close>

lemma investment_of_row_id:
  assumes "investment_of_row customer row = Inr i"
  shows "col_investment_id row = Some (i_investment_id i)"
    and "investment_of_row customer2 row = Inr (i\<lparr>i_customer := c_customer_id customer2\<rparr>)"
  using assms
  by (auto simp: investment_of_row_def and_then_def row_item_def split: option.splits)

lemma get_or_create_investment_present:
  "i_investment_id i \<in> i_investment_id ` set (investments s) \<Longrightarrow>
   get_or_create_investment i s = s"
  using find_key_Some [of "i_investment_id i" i_investment_id "investments s"]
  by (auto simp: get_or_create_investment_def)

lemma get_or_create_investment_append:
  "\<exists>new. get_or_create_investment i s = s\<lparr>investments := investments s @ new\<rparr> \<and>
         i_investment_id i \<in> i_investment_id ` set (investments s @ new)"
proof (cases "find (\<lambda>x. i_investment_id x = i_investment_id i) (investments s)")
  case None
  then show ?thesis
    by (intro exI [of _ "[i]"]) (simp add: get_or_create_investment_def)
next
  case (Some x)
  then have "x \<in> set (investments s)" and "i_investment_id x = i_investment_id i"
    by (auto simp: find_Some_iff)
  then have "i_investment_id i \<in> i_investment_id ` set (investments s)"
    by (metis image_eqI)
  with Some show ?thesis
    by (intro exI [of _ "[]"]) (simp add: get_or_create_investment_def)
qed

lemma import_investments_result:
  assumes "import_investments customer rows n s = (Inr m, s')"
  shows "m = n + length rows \<and>
         (\<exists>new. s' = s\<lparr>investments := investments s @ new\<rparr>) \<and>
         (\<forall>row \<in> set rows. \<exists>k. col_investment_id row = Some k \<and>
                                 k \<in> i_investment_id ` set (investments s'))"
  using assms
proof (induction rows arbitrary: n s)
  case Nil
  then show ?case by (auto intro: exI [of _ "[]"])
next
  case (Cons row rows)
  from Cons.prems obtain i where i: "investment_of_row customer row = Inr i"
    and r: "import_investments customer rows (n + 1) (get_or_create_investment i s) = (Inr m, s')"
    by (auto split: sum.splits)
  obtain new where g: "get_or_create_investment i s = s\<lparr>investments := investments s @ new\<rparr>"
    and k: "i_investment_id i \<in> i_investment_id ` set (investments s @ new)"
    using get_or_create_investment_append by blast
  from Cons.IH [OF r] obtain new' where
    m: "m = n + 1 + length rows"
    and s': "s' = (get_or_create_investment i s)
                    \<lparr>investments := investments (get_or_create_investment i s) @ new'\<rparr>"
    and ks: "\<forall>row \<in> set rows. \<exists>k. col_investment_id row = Some k \<and>
                                 k \<in> i_investment_id ` set (investments s')"
    by blast
  have e: "s' = s\<lparr>investments := investments s @ (new @ new')\<rparr>"
    using s' g by simp
  then have "i_investment_id i \<in> i_investment_id ` set (investments s')"
    using k by auto
  then have "\<exists>k. col_investment_id row = Some k \<and> k \<in> i_investment_id ` set (investments s')"
    using investment_of_row_id(1) [OF i] by simp
  with m e ks show ?case by auto
qed

lemma import_investments_present:
  assumes "\<forall>row \<in> set rows. \<exists>i. investment_of_row customer row = Inr i \<and>
             i_investment_id i \<in> i_investment_id ` set (investments s)"
  shows "import_investments customer rows n s = (Inr (n + length rows), s)"
  using assms
proof (induction rows arbitrary: n)
  case Nil
  then show ?case by simp
next
  case (Cons row rows)
  then obtain i where "investment_of_row customer row = Inr i"
    and "i_investment_id i \<in> i_investment_id ` set (investments s)"
    by auto
  then show ?case
    using Cons by (simp add: get_or_create_investment_present)
qed

lemma import_investments_again:
  assumes "import_investments customer rows n s = (Inr m, s')"
  shows "import_investments customer2 rows n2 s' = (Inr (n2 + length rows), s')"
proof (rule import_investments_present, rule ballI)
  fix row assume row: "row \<in> set rows"
  have ok: "\<exists>i. investment_of_row customer row = Inr i" if "row \<in> set rows" for row
    using assms that
  proof (induction rows arbitrary: n s)
    case Nil
    then show ?case by simp
  next
    case (Cons a rows)
    then show ?case by (auto split: sum.splits)
  qed
  then obtain i where i: "investment_of_row customer row = Inr i"
    using row by blast
  obtain k where "col_investment_id row = Some k"
    and "k \<in> i_investment_id ` set (investments s')"
    using import_investments_result [OF assms] row by blast
  then show "\<exists>i. investment_of_row customer2 row = Inr i \<and>
               i_investment_id i \<in> i_investment_id ` set (investments s')"
    using investment_of_row_id(1) [OF i] investment_of_row_id(2) [OF i, of customer2] by auto
qed

lemma process_uploaded_file_cases:
  assumes "uf_file_path uploaded = Inr rows"
  shows "uf_file_type uploaded = ''transaction'' \<Longrightarrow>
           process_uploaded_file uploaded customer s = import_transactions customer rows 0 s"
    and "uf_file_type uploaded = ''investment'' \<Longrightarrow>
           process_uploaded_file uploaded customer s = import_investments customer rows 0 s"
  using assms by (simp_all add: process_uploaded_file_def)

lemma transaction_file_import:
  "process_uploaded_file transaction_file example_customer (example_store two_weeks []) =
     (Inr 3, example_store (two_weeks @ [example_transaction ''T9'' 739000 ''groceries'' 20]) [])"
  by code_simp

text \<open>
  C4. An uploaded file of type \<open>transaction\<close> or \<open>investment\<close> whose import
  completes returns the number of its rows, whether they created a record or not.
  Every record that the store held before is still the record found under its key
  afterwards: a row with a key that exists does not overwrite. Importing the same file
  again, for any customer, leaves the store exactly as it is and again returns the
  number of rows.
\<close>

theorem import_twice:
  assumes "process_uploaded_file uploaded customer s = (Inr n, s')"
    and "uf_file_path uploaded = Inr rows"
    and "uf_file_type uploaded = ''transaction'' \<or> uf_file_type uploaded = ''investment''"
  shows "n = length rows \<and>
         process_uploaded_file uploaded customer2 s' = (Inr (length rows), s') \<and>
         (\<forall>k t. find (\<lambda>x. t_transaction_id x = k) (transactions s) = Some t \<longrightarrow>
                find (\<lambda>x. t_transaction_id x = k) (transactions s') = Some t) \<and>
         (\<forall>k i. find (\<lambda>x. i_investment_id x = k) (investments s) = Some i \<longrightarrow>
                find (\<lambda>x. i_investment_id x = k) (investments s') = Some i)"
  using assms(3)
proof
  assume ft: "uf_file_type uploaded = ''transaction''"
  have r: "import_transactions customer rows 0 s = (Inr n, s')"
    using assms(1) process_uploaded_file_cases(1) [OF assms(2) ft] by simp
  from import_transactions_result [OF r] obtain new where
    n: "n = length rows" and s': "s' = s\<lparr>transactions := transactions s @ new\<rparr>"
    by auto
  have "process_uploaded_file uploaded customer2 s' = (Inr (length rows), s')"
    using import_transactions_again [OF r, of customer2 0]
      process_uploaded_file_cases(1) [OF assms(2) ft] by simp
  then show ?thesis
    using n s' by (simp add: find_append_Some)
next
  assume ft: "uf_file_type uploaded = ''investment''"
  have r: "import_investments customer rows 0 s = (Inr n, s')"
    using assms(1) process_uploaded_file_cases(2) [OF assms(2) ft] by simp
  from import_investments_result [OF r] obtain new where
    n: "n = length rows" and s': "s' = s\<lparr>investments := investments s @ new\<rparr>"
    by auto
  have "process_uploaded_file uploaded customer2 s' = (Inr (length rows), s')"
    using import_investments_again [OF r, of customer2 0]
      process_uploaded_file_cases(2) [OF assms(2) ft] by simp
  then show ?thesis
    using n s' by (simp add: find_append_Some)
qed

theorem import_twice_witness:
  "process_uploaded_file transaction_file example_customer (example_store two_weeks []) =
     (Inr 3, example_store (two_weeks @ [example_transaction ''T9'' 739000 ''groceries'' 20]) []) \<and>
   process_uploaded_file transaction_file other_customer
       (example_store (two_weeks @ [example_transaction ''T9'' 739000 ''groceries'' 20]) []) =
     (Inr 3, example_store (two_weeks @ [example_transaction ''T9'' 739000 ''groceries'' 20]) []) \<and>
   find (\<lambda>x. t_transaction_id x = ''T1'')
       (transactions (example_store (two_weeks @ [example_transaction ''T9'' 739000 ''groceries'' 20]) []))
     = Some (example_transaction ''T1'' 739000 ''groceries'' 100)"
proof -
  have p: "uf_file_path transaction_file =
             Inr [transaction_row ''T1'' 999, transaction_row ''T9'' 20, transaction_row ''T9'' 30]"
    by (simp add: transaction_file_def)
  have f: "uf_file_type transaction_file = ''transaction'' \<or>
           uf_file_type transaction_file = ''investment''"
    by (simp add: transaction_file_def)
  have o: "find (\<lambda>x. t_transaction_id x = ''T1'') (transactions (example_store two_weeks []))
             = Some (example_transaction ''T1'' 739000 ''groceries'' 100)"
    by (simp add: example_store_def two_weeks_def example_transaction_def)
  from import_twice [OF transaction_file_import p f, of other_customer] o
  show ?thesis
    using transaction_file_import by simp
qed

text \<open>
  C10, as the code has it. An upload with a file, a known customer and a file type that
  is neither \<open>transaction\<close> nor \<open>investment\<close> changes nothing in the store but the
  table of uploaded files. When the file can be read as CSV the endpoint answers 201 with
  0 records imported and the metadata record is marked processed with 0 records
  imported. When reading the file raises, the endpoint answers 500 with the error and
  the metadata record stays unprocessed.
\<close>

theorem upload_other_file_type:
  assumes "ur_file request = Some (name, contents)"
    and "ur_file_type request = Some file_type"
    and "file_type \<noteq> []" and "file_type \<noteq> ''transaction''" and "file_type \<noteq> ''investment''"
    and "ur_customer_id request = Some customer_id" and "customer_id \<noteq> []"
    and "get_customer s customer_id = Some customer"
  shows "upload_file request s =
           (case contents of
              Inr rows \<Rightarrow>
                (Response (Upload_reply ''File uploaded and processed successfully'' 0) 201,
                 s\<lparr>uploaded_files := uploaded_files s @
                      [\<lparr>uf_file_name = name, uf_file_type = file_type, uf_file_path = contents,
                        uf_uploaded_by = customer_id, uf_processed = True,
                        uf_records_imported = 0\<rparr>]\<rparr>)
            | Inl e \<Rightarrow>
                (Response (Error_message (''Error processing file: '' @ str_exn e)) 500,
                 s\<lparr>uploaded_files := uploaded_files s @
                      [\<lparr>uf_file_name = name, uf_file_type = file_type, uf_file_path = contents,
                        uf_uploaded_by = customer_id, uf_processed = False,
                        uf_records_imported = 0\<rparr>]\<rparr>))"
proof -
  have cid: "c_customer_id customer = customer_id"
    using assms(8) by (auto simp: get_customer_def find_Some_iff)
  show ?thesis
    using assms cid
    by (cases contents) (simp_all add: upload_file_def process_uploaded_file_def Let_def)
qed

theorem upload_other_file_type_witness:
  "upload_file customer_upload (example_store [] []) =
     (Response (Upload_reply ''File uploaded and processed successfully'' 0) 201,
      (example_store [] [])
        \<lparr>uploaded_files :=
           [\<lparr>uf_file_name = ''customers.csv'', uf_file_type = ''customer'',
             uf_file_path = Inr [empty_row], uf_uploaded_by = ''C1'', uf_processed = True,
             uf_records_imported = 0\<rparr>]\<rparr>)"
proof -
  have c: "get_customer (example_store [] []) ''C1'' = Some example_customer"
    by code_simp
  from upload_other_file_type [of customer_upload "''customers.csv''" "Inr [empty_row]"
      "''customer''" "''C1''" "example_store [] []" example_customer] c
  show ?thesis
    by (simp add: customer_upload_def example_store_def)
qed

text \<open>
  C10 as stated fails for a file that cannot be read as CSV: an upload of type
  \<open>document\<close> whose file makes \<^verbatim>\<open>pd.read_csv\<close> raise is answered with status 500,
  and its metadata record is left unprocessed.
\<close>

theorem upload_unreadable_counterexample:
  "upload_file unreadable_upload (example_store [] []) =
     (Response (Error_message ''Error processing file: No columns to parse from file'') 500,
      (example_store [] [])
        \<lparr>uploaded_files :=
           [\<lparr>uf_file_name = ''notes.pdf'', uf_file_type = ''document'',
             uf_file_path = Inl (Exception ''No columns to parse from file''),
             uf_uploaded_by = ''C1'', uf_processed = False, uf_records_imported = 0\<rparr>]\<rparr>)"
  by code_simp

end
